theory Spec2Isabelle
  imports Main
begin

section \<open>The manifest event rule (storage-stack.ts) and the trigger pipeline\<close>

text \<open>
  \<^verbatim>\<open>StorageStack\<close> creates an EventBridge rule \<^verbatim>\<open>ManifestEventBridgeRule\<close> on the data
  bucket and targets the SNS topic \<^verbatim>\<open>ManifestNotificationTopic\<close>;
  \<^verbatim>\<open>QueueProcessingStack\<close> subscribes the SQS queue \<^verbatim>\<open>ManifestQueue\<close> to that topic
  and maps the queue to the Lambda \<^verbatim>\<open>ManifestProcessorFunction\<close>.

  An event pattern gives, for each field it names, a list of alternatives; a field matches
  when one alternative does. An alternative is an exact value or a content filter such as
  \<^verbatim>\<open>{ suffix: '.json' }\<close>. All named fields must match.
\<close>

datatype matcher = Exact string | Suffix string | Prefix string

record EventPattern =
  source :: "matcher list"
  detailType :: "matcher list"
  detail_bucket_name :: "matcher list"
  detail_object_key :: "matcher list"

datatype target = SnsTopic string

record Rule =
  description :: string
  eventPattern :: EventPattern
  targets :: "target list"

text \<open>The fields of an S3 event that the pattern reads.\<close>

record s3_event =
  ev_source :: string
  ev_detail_type :: string
  ev_bucket_name :: string
  ev_object_key :: string

definition ends_with :: "string \<Rightarrow> string \<Rightarrow> bool" where
  "ends_with s v = (length s \<le> length v \<and> drop (length v - length s) v = s)"

definition starts_with :: "string \<Rightarrow> string \<Rightarrow> bool" where
  "starts_with s v = (take (length s) v = s)"

fun matcher_matches :: "matcher \<Rightarrow> string \<Rightarrow> bool" where
  "matcher_matches (Exact s) v = (v = s)"
| "matcher_matches (Suffix s) v = ends_with s v"
| "matcher_matches (Prefix s) v = starts_with s v"

definition field_matches :: "matcher list \<Rightarrow> string \<Rightarrow> bool" where
  "field_matches ms v = list_ex (\<lambda>m. matcher_matches m v) ms"

definition pattern_matches :: "EventPattern \<Rightarrow> s3_event \<Rightarrow> bool" where
  "pattern_matches p e =
     (field_matches (source p) (ev_source e) \<and>
      field_matches (detailType p) (ev_detail_type e) \<and>
      field_matches (detail_bucket_name p) (ev_bucket_name e) \<and>
      field_matches (detail_object_key p) (ev_object_key e))"

text \<open>
  \<^verbatim>\<open>new events.Rule(this, 'ManifestEventBridgeRule', {...})\<close> followed by
  \<^verbatim>\<open>manifestRule.addTarget(new targets.SnsTopic(this.manifestNotificationTopic))\<close>.
  The bucket name is a deploy-time value, so it is a parameter.
\<close>

definition addTarget :: "target \<Rightarrow> Rule \<Rightarrow> Rule" where
  "addTarget t r = r\<lparr>targets := targets r @ [t]\<rparr>"

definition ManifestEventBridgeRule :: "string \<Rightarrow> Rule" where
  "ManifestEventBridgeRule dataBucketName =
     addTarget (SnsTopic ''ManifestNotificationTopic'')
       \<lparr>description = ''Trigger on .json manifest file uploads to data bucket'',
        eventPattern =
          \<lparr>source = [Exact ''aws.s3''],
           detailType = [Exact ''Object Created''],
           detail_bucket_name = [Exact dataBucketName],
           detail_object_key = [Suffix ''.json'']\<rparr>,
        targets = []\<rparr>"

text \<open>
  \<^verbatim>\<open>props.manifestNotificationTopic.addSubscription(new snss.SqsSubscription(this.manifestQueue))\<close>
  and the \<^verbatim>\<open>SqsEventSourceMapping\<close> from the queue to the processor function.
\<close>

definition topic_subscriptions :: "(string \<times> string) list" where
  "topic_subscriptions = [(''ManifestNotificationTopic'', ''ManifestQueue'')]"

definition event_source_mappings :: "(string \<times> string) list" where
  "event_source_mappings = [(''ManifestQueue'', ''ManifestProcessorFunction'')]"

text \<open>
  The hops an event takes: for each target topic of a rule that fires, each queue subscribed
  to the topic, and each function mapped to the queue, one path (topic, queue, function).
\<close>

definition trigger_pipeline :: "Rule \<Rightarrow> s3_event \<Rightarrow> (string \<times> string \<times> string) list" where
  "trigger_pipeline r e =
     (if pattern_matches (eventPattern r) e
      then concat (map (\<lambda>t. case t of SnsTopic topic \<Rightarrow>
             concat (map (\<lambda>(tp, q). if tp = topic
                 then map (\<lambda>(q', f). (topic, q, f))
                        (filter (\<lambda>(q', f). q' = q) event_source_mappings)
                 else []) topic_subscriptions)) (targets r))
      else [])"

section \<open>The Batch job definition (RegenieJobDefinition)\<close>

text \<open>
  The fields of \<^verbatim>\<open>new batch.CfnJobDefinition(this, 'JobDefinition', {...})\<close> that govern
  how often and how long a job runs: \<^verbatim>\<open>retryStrategy: { attempts: 2 }\<close> and
  \<^verbatim>\<open>timeout: { attemptDurationSeconds: 7200 }\<close>, with the resource defaults
  (\<^verbatim>\<open>props.vcpus?.toString() || '4'\<close>, \<^verbatim>\<open>props.memoryMiB?.toString() || '16384'\<close>).
\<close>

record RegenieJobDefinitionProps =
  regenieVersion :: "string option"
  vcpus :: "string option"
  memoryMiB :: "string option"

record JobDefinition =
  jd_type :: string
  jd_vcpu :: string
  jd_memory :: string
  retryStrategy_attempts :: nat
  propagateTags :: bool
  timeout_attemptDurationSeconds :: nat

definition RegenieJobDefinition :: "RegenieJobDefinitionProps \<Rightarrow> JobDefinition" where
  "RegenieJobDefinition props =
     \<lparr>jd_type = ''container'',
      jd_vcpu = (case vcpus props of Some v \<Rightarrow> v | None \<Rightarrow> ''4''),
      jd_memory = (case memoryMiB props of Some v \<Rightarrow> v | None \<Rightarrow> ''16384''),
      retryStrategy_attempts = 2,
      propagateTags = True,
      timeout_attemptDurationSeconds = 7200\<rparr>"

text \<open>
  The job execution service runs a submitted job under its definition's retry strategy:
  an attempt that fails is followed by another one while attempts remain, and the job is
  FAILED once the last one has failed. \<open>ok k\<close> says whether the analysis process of attempt
  number \<open>k\<close> (from 0) exits successfully. The result is the job's terminal status and the
  number of attempts that were executed.
\<close>

datatype job_status = JOB_SUCCEEDED | JOB_FAILED

fun run_attempts :: "nat \<Rightarrow> (nat \<Rightarrow> bool) \<Rightarrow> nat \<Rightarrow> job_status \<times> nat" where
  "run_attempts 0 ok k = (JOB_FAILED, k)"
| "run_attempts (Suc n) ok k =
     (if ok k then (JOB_SUCCEEDED, Suc k) else run_attempts n ok (Suc k))"

definition run_job :: "JobDefinition \<Rightarrow> (nat \<Rightarrow> bool) \<Rightarrow> job_status \<times> nat" where
  "run_job jd ok = run_attempts (retryStrategy_attempts jd) ok 0"

section \<open>JSON values and reference paths\<close>

text \<open>
  The state machine of \<^verbatim>\<open>WorkflowStack\<close> passes a JSON document from state to state.
  A reference path such as \<^verbatim>\<open>$.JobCalculation.Payload.step1Jobs\<close> is a root followed by
  field names; a field name followed by \<^verbatim>\<open>[*]\<close>, as in \<^verbatim>\<open>$.error.Cause[*].ErrorDetails\<close>,
  selects every element of the array in that field. Reading a path that is not there gives
  \<open>None\<close>: a field that is missing, a field of a value that is not an object, the
  elements of a value that is not an array, or elements none of which has the rest of the
  path. Writing below a value that is not an object gives \<open>None\<close>; writing creates
  missing fields.
\<close>

datatype json =
    JNull
  | JBool bool
  | JNum int
  | JStr string
  | JArr "json list"
  | JObj "(string \<times> json) list"

fun split_on :: "char \<Rightarrow> string \<Rightarrow> string list" where
  "split_on c [] = [[]]"
| "split_on c (x # xs) =
     (if x = c then [] # split_on c xs
      else (case split_on c xs of w # ws \<Rightarrow> (x # w) # ws | [] \<Rightarrow> [[x]]))"

definition parse_path :: "string \<Rightarrow> string list option" where
  "parse_path p =
     (case split_on CHR ''.'' p of
        r # ks \<Rightarrow> if r = ''$'' then Some ks else None
      | [] \<Rightarrow> None)"

fun lookup_key :: "string \<Rightarrow> json \<Rightarrow> json option" where
  "lookup_key k (JObj kvs) = map_of kvs k"
| "lookup_key k _ = None"

fun get_path :: "string list \<Rightarrow> json \<Rightarrow> json option" where
  "get_path [] j = Some j"
| "get_path (k # ks) j =
     (if ends_with ''[*]'' k
      then (case lookup_key (take (length k - 3) k) j of
              Some (JArr xs) \<Rightarrow>
                (case List.map_filter (get_path ks) xs of
                   [] \<Rightarrow> None
                 | v # vs \<Rightarrow> Some (JArr (v # vs)))
            | _ \<Rightarrow> None)
      else (case lookup_key k j of None \<Rightarrow> None | Some v \<Rightarrow> get_path ks v))"

fun update_key :: "string \<Rightarrow> json \<Rightarrow> (string \<times> json) list \<Rightarrow> (string \<times> json) list" where
  "update_key k v [] = [(k, v)]"
| "update_key k v ((k', v') # kvs) =
     (if k' = k then (k, v) # kvs else (k', v') # update_key k v kvs)"

fun set_path :: "string list \<Rightarrow> json \<Rightarrow> json \<Rightarrow> json option" where
  "set_path [] v j = Some v"
| "set_path (k # ks) v (JObj kvs) =
     (case set_path ks v (case map_of kvs k of None \<Rightarrow> JObj [] | Some c \<Rightarrow> c) of
        None \<Rightarrow> None
      | Some c' \<Rightarrow> Some (JObj (update_key k c' kvs)))"
| "set_path (k # ks) v _ = None"

text \<open>
  The value of a path in a parameter template: the root \<^verbatim>\<open>$\<close> is the input of the
  state, the root \<^verbatim>\<open>$$\<close> is the context object (\<^verbatim>\<open>$$.Map.Item.Value\<close> is the current item
  of a Map state, \<^verbatim>\<open>$$.State.EnteredTime\<close> the time at which the state was entered; the clock
  is not modelled, so the time is a fixed string). A template key that ends in \<^verbatim>\<open>.$\<close>
  names a field whose value is read from the path; the field is the key without \<^verbatim>\<open>.$\<close>.
\<close>

definition context_object :: "string \<Rightarrow> (nat \<times> json) option \<Rightarrow> json" where
  "context_object n mi =
     JObj ([(''State'', JObj [(''Name'', JStr n), (''EnteredTime'', JStr ''EnteredTime'')])] @
           (case mi of
              None \<Rightarrow> []
            | Some (i, item) \<Rightarrow>
                [(''Map'', JObj [(''Item'', JObj [(''Index'', JNum (int i)), (''Value'', item)])])]))"

definition select_value :: "json \<Rightarrow> json \<Rightarrow> string \<Rightarrow> json option" where
  "select_value ctx inp p =
     (case split_on CHR ''.'' p of
        r # ks \<Rightarrow>
          if r = ''$'' then get_path ks inp
          else if r = ''$$'' then get_path ks ctx
          else None
      | [] \<Rightarrow> None)"

fun eval_template :: "(string \<times> string) list \<Rightarrow> json \<Rightarrow> json \<Rightarrow> (string \<times> json) list option" where
  "eval_template [] ctx inp = Some []"
| "eval_template ((k, p) # tpl) ctx inp =
     (if ends_with ''.$'' k
      then (case select_value ctx inp p of
              None \<Rightarrow> None
            | Some v \<Rightarrow>
               (case eval_template tpl ctx inp of
                  None \<Rightarrow> None
                | Some kvs \<Rightarrow> Some ((take (length k - 2) k, v) # kvs)))
      else (case eval_template tpl ctx inp of
              None \<Rightarrow> None
            | Some kvs \<Rightarrow> Some ((k, JStr p) # kvs)))"

section \<open>The workflow definition (WorkflowStack.createGwasWorkflow)\<close>

text \<open>
  Each CDK construct of \<^verbatim>\<open>createGwasWorkflow\<close> becomes a named state record:
  \<^verbatim>\<open>tasks.LambdaInvoke\<close> (function, payload; no payload means the whole input),
  \<^verbatim>\<open>tasks.BatchSubmitJob\<close> (jobName, jobQueueArn, jobDefinitionArn,
  containerOverrides.command, integrationPattern), \<^verbatim>\<open>sfn.Map\<close> (maxConcurrency, itemsPath,
  itemSelector, item processor), \<^verbatim>\<open>sfn.Fail\<close> (cause, error) and \<^verbatim>\<open>sfn.Succeed\<close>.
  The calls \<^verbatim>\<open>a.next(b)\<close>, \<^verbatim>\<open>a.addCatch(h, {errors, resultPath})\<close> and
  \<^verbatim>\<open>a.itemProcessor(chain)\<close> update the record of \<open>a\<close>; a chain is entered at its first
  state. The field \<open>nxt\<close> is the source's \<^verbatim>\<open>next\<close>. Function, queue and job definition
  references are deploy-time values, so they are parameters (\<open>WorkflowStackProps\<close>).

  A retrier is (errors, interval in seconds, maxAttempts, backoffRate). The source gives no
  \<^verbatim>\<open>retryOnServiceExceptions\<close> to \<^verbatim>\<open>tasks.LambdaInvoke\<close>, so the construct's default applies:
  every Lambda task retries the Lambda service exceptions. \<^verbatim>\<open>tasks.BatchSubmitJob\<close> has no
  retrier, and the source calls \<^verbatim>\<open>addRetry\<close> nowhere.
\<close>

datatype integration_pattern = REQUEST_RESPONSE | RUN_JOB

datatype state_kind =
    LambdaInvoke string "(string \<times> string) list option"
  | BatchSubmitJob string string string string integration_pattern
  | MapState nat string "(string \<times> string) list" "string option"
  | FailState string string
  | SucceedState

record state =
  kind :: state_kind
  inputPath :: "string option"
  outputPath :: "string option"
  resultPath :: "string option"
  nxt :: "string option"
  catchers :: "(string list \<times> string option \<times> string) list"
  retry :: "(string list \<times> nat \<times> nat \<times> nat) list"

record machine =
  startAt :: string
  states :: "(string \<times> state) list"

definition new_state :: "state_kind \<Rightarrow> state" where
  "new_state k = \<lparr>kind = k, inputPath = None, outputPath = None, resultPath = None,
                  nxt = None, catchers = [], retry = []\<rparr>"

definition lambda_service_exceptions :: "string list" where
  "lambda_service_exceptions =
     [''Lambda.ClientExecutionTimeoutException'', ''Lambda.ServiceException'',
      ''Lambda.AWSLambdaException'', ''Lambda.SdkClientException'']"

definition tasks_LambdaInvoke :: "string \<Rightarrow> (string \<times> string) list option \<Rightarrow> state" where
  "tasks_LambdaInvoke f payload =
     (new_state (LambdaInvoke f payload))\<lparr>retry := [(lambda_service_exceptions, 2, 6, 2)]\<rparr>"

definition modify :: "string \<Rightarrow> (state \<Rightarrow> state) \<Rightarrow> (string \<times> state) list \<Rightarrow> (string \<times> state) list" where
  "modify a f sts = map (\<lambda>(n, st). if n = a then (n, f st) else (n, st)) sts"

definition next_to :: "string \<Rightarrow> string \<Rightarrow> (string \<times> state) list \<Rightarrow> (string \<times> state) list" where
  "next_to a b = modify a (\<lambda>st. st\<lparr>nxt := Some b\<rparr>)"

definition addCatch :: "string \<Rightarrow> string \<Rightarrow> string list \<Rightarrow> string option \<Rightarrow>
    (string \<times> state) list \<Rightarrow> (string \<times> state) list" where
  "addCatch a handler errors rp =
     modify a (\<lambda>st. st\<lparr>catchers := catchers st @ [(errors, rp, handler)]\<rparr>)"

definition itemProcessor :: "string \<Rightarrow> string \<Rightarrow> (string \<times> state) list \<Rightarrow> (string \<times> state) list" where
  "itemProcessor a start =
     modify a (\<lambda>st. case kind st of
                  MapState mc ip sel proc \<Rightarrow> st\<lparr>kind := MapState mc ip sel (Some start)\<rparr>
                | _ \<Rightarrow> st)"

record WorkflowStackProps =
  workflowInitFunction :: string
  jobCalculatorFunction :: string
  errorHandlerFunction :: string
  commandParserFunction :: string
  successHandlerFunction :: string
  batchJobQueue :: string
  batchJobDefinition :: string

definition createGwasWorkflow :: "WorkflowStackProps \<Rightarrow> machine" where
  "createGwasWorkflow props =
    (let initializeWorkflow =
           (''InitializeWorkflow'',
            (tasks_LambdaInvoke (workflowInitFunction props) None)
              \<lparr>outputPath := Some ''$.Payload''\<rparr>);
         calculateBatchJobs =
           (''CalculateBatchJobs'',
            (tasks_LambdaInvoke (jobCalculatorFunction props)
               (Some [(''workflowId.$'', ''$.workflowId''),
                      (''s3Path.$'', ''$.s3Path''),
                      (''analysisSubdir.$'', ''$.dataBucketPrefix''),
                      (''inputData.$'', ''$.parameters.inputData''),
                      (''analysisParams.$'', ''$.parameters.analysisParams''),
                      (''outputParams.$'', ''$.parameters.outputParams'')]))
              \<lparr>inputPath := Some ''$'', resultPath := Some ''$.JobCalculation''\<rparr>);
         parseStep1Command =
           (''ParseStep1Command'',
            (tasks_LambdaInvoke (commandParserFunction props) None)
              \<lparr>inputPath := Some ''$'', resultPath := Some ''$.parsedCommand''\<rparr>);
         parseStep2Command =
           (''ParseStep2Command'',
            (tasks_LambdaInvoke (commandParserFunction props) None)
              \<lparr>inputPath := Some ''$'', resultPath := Some ''$.parsedCommand''\<rparr>);
         submitStep1Job =
           (''SubmitStep1Job'',
            new_state (BatchSubmitJob ''$.jobId'' (batchJobQueue props) (batchJobDefinition props)
              ''$.parsedCommand.Payload.jobSubmission.ContainerOverrides.Command'' RUN_JOB));
         submitStep2Job =
           (''SubmitStep2Job'',
            new_state (BatchSubmitJob ''$.jobId'' (batchJobQueue props) (batchJobDefinition props)
              ''$.parsedCommand.Payload.jobSubmission.ContainerOverrides.Command'' RUN_JOB));
         sts = [initializeWorkflow, calculateBatchJobs, parseStep1Command, parseStep2Command,
                submitStep1Job, submitStep2Job];
         sts = next_to ''ParseStep1Command'' ''SubmitStep1Job'' sts;
         sts = next_to ''ParseStep2Command'' ''SubmitStep2Job'' sts;
         handleJobErrors =
           (''HandleJobErrors'',
            (tasks_LambdaInvoke (errorHandlerFunction props)
               (Some [(''workflowId.$'', ''$.workflowId''),
                      (''failedJobs.$'', ''$.error.Cause[*].ErrorDetails'')]))
              \<lparr>inputPath := Some ''$'', resultPath := Some ''$.errorHandlingResult''\<rparr>);
         workflowFailed =
           (''WorkflowFailed'', new_state (FailState ''Job execution failed'' ''BatchJobError''));
         sts = sts @ [handleJobErrors, workflowFailed];
         sts = next_to ''HandleJobErrors'' ''WorkflowFailed'' sts;
         submitStep1Jobs =
           (''SubmitStep1Jobs'',
            (new_state (MapState 1 ''$.JobCalculation.Payload.step1Jobs''
               [(''jobId.$'', ''$$.Map.Item.Value.jobId''),
                (''Command.$'', ''$$.Map.Item.Value.Command''),
                (''stepNumber.$'', ''$$.Map.Item.Value.stepNumber''),
                (''workflowId.$'', ''$.workflowId'')] None))
              \<lparr>resultPath := Some ''$.Step1BatchJobs''\<rparr>);
         sts = sts @ [submitStep1Jobs];
         sts = addCatch ''SubmitStep1Jobs'' ''HandleJobErrors'' [''States.ALL''] (Some ''$.error'') sts;
         sts = itemProcessor ''SubmitStep1Jobs'' ''ParseStep1Command'' sts;
         submitStep2Jobs =
           (''SubmitStep2Jobs'',
            (new_state (MapState 50 ''$.JobCalculation.Payload.step2Jobs''
               [(''jobId.$'', ''$$.Map.Item.Value.jobId''),
                (''Command.$'', ''$$.Map.Item.Value.Command''),
                (''stepNumber.$'', ''$$.Map.Item.Value.stepNumber''),
                (''workflowId.$'', ''$.workflowId'')] None))
              \<lparr>resultPath := Some ''$.Step2BatchJobs''\<rparr>);
         sts = sts @ [submitStep2Jobs];
         sts = addCatch ''SubmitStep2Jobs'' ''HandleJobErrors'' [''States.ALL''] (Some ''$.error'') sts;
         sts = itemProcessor ''SubmitStep2Jobs'' ''ParseStep2Command'' sts;
         handleSuccess =
           (''HandleSuccess'',
            (tasks_LambdaInvoke (successHandlerFunction props)
               (Some [(''workflowId.$'', ''$.workflowId''),
                      (''resultsBucketPath.$'', ''$.resultsBucketPath''),
                      (''completionTime.$'', ''$$.State.EnteredTime'')]))
              \<lparr>inputPath := Some ''$'', resultPath := Some ''$.successResult''\<rparr>);
         workflowSuccess = (''WorkflowSucceeded'', new_state SucceedState);
         sts = sts @ [handleSuccess, workflowSuccess];
         sts = next_to ''InitializeWorkflow'' ''CalculateBatchJobs'' sts;
         sts = next_to ''CalculateBatchJobs'' ''SubmitStep1Jobs'' sts;
         sts = next_to ''SubmitStep1Jobs'' ''SubmitStep2Jobs'' sts;
         sts = next_to ''SubmitStep2Jobs'' ''HandleSuccess'' sts;
         sts = next_to ''HandleSuccess'' ''WorkflowSucceeded'' sts
     in \<lparr>startAt = ''InitializeWorkflow'', states = sts\<rparr>)"

text \<open>
  The states that can lead into a state (by \<^verbatim>\<open>next\<close> or as a catch handler), and the
  states a state can lead to.
\<close>

definition predecessors :: "machine \<Rightarrow> string \<Rightarrow> string list" where
  "predecessors M t =
     map fst (filter (\<lambda>(n, st). nxt st = Some t \<or> t \<in> set (map (\<lambda>(errors, rp, h). h) (catchers st)))
                (states M))"

definition successors :: "machine \<Rightarrow> string \<Rightarrow> string list" where
  "successors M n =
     (case map_of (states M) n of
        None \<Rightarrow> []
      | Some st \<Rightarrow> (case nxt st of None \<Rightarrow> [] | Some t \<Rightarrow> [t]) @
                   map (\<lambda>(errors, rp, h). h) (catchers st))"

section \<open>Executing the workflow\<close>

text \<open>
  An execution is driven by the events of its environment, one at a time:
  \<^item> \<open>TaskDone r\<close>: the service call of the current top-level task state (a Lambda
    invocation) has returned \<open>r\<close>, its output or an error name and cause;
  \<^item> \<open>IterStart\<close>: the current Map state starts the iteration of its next item;
  \<^item> \<open>IterTaskDone i r\<close>: the service call of the task state of iteration \<open>i\<close> has
    returned \<open>r\<close>: the Lambda invocation, or the \<^verbatim>\<open>SubmitJob\<close> call of a
    \<^verbatim>\<open>BatchSubmitJob\<close> state;
  \<^item> \<open>JobEnded i s out cause\<close>: the job submitted by iteration \<open>i\<close> has reached the
    terminal status \<open>s\<close>;
  \<^item> \<open>MapFinish\<close>: the current Map state, all of whose iterations have ended, completes.

  An event that the current position does not await leaves the configuration unchanged.

  When a task state is entered its parameters are evaluated on its input: the payload of
  a Lambda task, the job name and command of a \<^verbatim>\<open>BatchSubmitJob\<close>. A parameter path that
  cannot be read fails the state with \<^verbatim>\<open>States.Runtime\<close>, before any service is called;
  otherwise the service is called with the parameters (\<open>TaskStarted\<close>, \<open>IterTaskStarted\<close>;
  for a \<^verbatim>\<open>BatchSubmitJob\<close> state this is the submission of the job). What the service
  returns is the environment's.

  A \<^verbatim>\<open>BatchSubmitJob\<close> state with integration pattern \<^verbatim>\<open>RUN_JOB\<close> does not end when the
  \<^verbatim>\<open>SubmitJob\<close> call returns: it waits for the job and succeeds when the job SUCCEEDED
  and fails with \<^verbatim>\<open>States.TaskFailed\<close> when the job FAILED. With \<^verbatim>\<open>REQUEST_RESPONSE\<close> the state
  ends with the call and the job is not awaited.

  A task that fails with an error that one of its retriers matches is called again, up to
  the retrier's \<^verbatim>\<open>maxAttempts\<close> times (the waiting time between the calls is not
  modelled); only the failure that is not retried fails the state.

  A Map state runs at most \<^verbatim>\<open>maxConcurrency\<close> iterations at a time (0 means no limit), in the
  order of the items. When an iteration fails, the Map state fails with that error and
  its other iterations are stopped. A failed state is left through its first matching
  catcher, which stores the error, an object with the strings \<^verbatim>\<open>Error\<close> and \<^verbatim>\<open>Cause\<close>, under
  the catcher's \<^verbatim>\<open>resultPath\<close>; without one the execution ends as FAILED with that error.
  \<^verbatim>\<open>States.ALL\<close> matches every error name but \<^verbatim>\<open>States.Runtime\<close> and
  \<^verbatim>\<open>States.DataLimitExceeded\<close>, which no catcher and no retrier matches. A state without
  \<^verbatim>\<open>next\<close> ends the execution. The states of an item processor are tasks without
  catchers, as in this workflow. The execution's own timeout and an abort from outside are
  not modelled.

  The \<open>trace\<close> of a configuration records what has happened, newest first. \<open>MapItems m n\<close>
  records the number of items with which Map state \<open>m\<close> was entered.
\<close>

datatype outcome = SUCCEEDED | FAILED string string

datatype iteration =
  Iteration (it_index: nat) (it_state: string) (it_waiting: bool) (it_retries: nat) (it_data: json)

datatype position =
    AtState string nat
  | InMap string "json list" nat "iteration list" "(nat \<times> json) list"
  | Ended outcome

datatype trace_event =
    StateEntered string
  | TaskStarted string json
  | TaskRetried string string
  | TaskSucceeded string
  | MapItems string nat
  | MapIterationStarted string nat
  | IterStateEntered string nat string
  | IterTaskStarted string nat string json
  | IterTaskRetried string nat string string
  | IterTaskSucceeded string nat string
  | IterTaskFailed string nat string string
  | JobSubmitted string nat string
  | JobSucceeded string nat string
  | JobFailed string nat string
  | MapIterationSucceeded string nat
  | MapStateSucceeded string
  | StateFailed string string
  | ErrorCaught string string string

record config =
  pos :: position
  data :: json
  trace :: "trace_event list"

datatype result = Ok json | Err string string

datatype event =
    TaskDone result
  | IterStart
  | IterTaskDone nat result
  | JobEnded nat job_status json string
  | MapFinish

definition lookup :: "machine \<Rightarrow> string \<Rightarrow> state option" where
  "lookup M n = map_of (states M) n"

definition uncatchable :: "string \<Rightarrow> bool" where
  "uncatchable e = (e = ''States.Runtime'' \<or> e = ''States.DataLimitExceeded'')"

definition catch_matches :: "string list \<Rightarrow> string \<Rightarrow> bool" where
  "catch_matches errors e =
     (\<not> uncatchable e \<and> (e \<in> set errors \<or> ''States.ALL'' \<in> set errors))"

definition retry_allowed :: "state \<Rightarrow> string \<Rightarrow> nat \<Rightarrow> bool" where
  "retry_allowed st e r =
     (case find (\<lambda>(errors, interval, maxAttempts, backoff). catch_matches errors e) (retry st) of
        None \<Rightarrow> False
      | Some (errors, interval, maxAttempts, backoff) \<Rightarrow> r < maxAttempts)"

definition error_output :: "string \<Rightarrow> string \<Rightarrow> json" where
  "error_output e cause = JObj [(''Error'', JStr e), (''Cause'', JStr cause)]"

definition task_parameters :: "state_kind \<Rightarrow> json \<Rightarrow> json \<Rightarrow> json option" where
  "task_parameters k ctx inp =
     (case k of
        LambdaInvoke f payload \<Rightarrow>
          (case payload of
             None \<Rightarrow> Some inp
           | Some tpl \<Rightarrow> map_option JObj (eval_template tpl ctx inp))
      | BatchSubmitJob jn q jd cmd ip \<Rightarrow>
          (case select_value ctx inp jn of
             None \<Rightarrow> None
           | Some name \<Rightarrow>
              (case select_value ctx inp cmd of
                 None \<Rightarrow> None
               | Some command \<Rightarrow>
                   Some (JObj [(''JobName'', name), (''JobQueue'', JStr q),
                               (''JobDefinition'', JStr jd),
                               (''ContainerOverrides'', JObj [(''Command'', command)])])))
      | _ \<Rightarrow> None)"

definition put_result :: "string option \<Rightarrow> json \<Rightarrow> json \<Rightarrow> json option" where
  "put_result rp d r =
     (case rp of
        None \<Rightarrow> Some r
      | Some p \<Rightarrow> (case parse_path p of None \<Rightarrow> None | Some ks \<Rightarrow> set_path ks r d))"

definition filter_output :: "string option \<Rightarrow> json \<Rightarrow> json option" where
  "filter_output p d =
     (case p of
        None \<Rightarrow> Some d
      | Some q \<Rightarrow> (case parse_path q of None \<Rightarrow> None | Some ks \<Rightarrow> get_path ks d))"

definition apply_result :: "state \<Rightarrow> json \<Rightarrow> json \<Rightarrow> string + json" where
  "apply_result st d r =
     (case put_result (resultPath st) d r of
        None \<Rightarrow> Inl ''States.ResultPathMatchFailure''
      | Some d' \<Rightarrow>
         (case filter_output (outputPath st) d' of
            None \<Rightarrow> Inl ''States.Runtime''
          | Some d'' \<Rightarrow> Inr d''))"

definition items_at :: "string \<Rightarrow> json \<Rightarrow> json list option" where
  "items_at p d =
     (case parse_path p of
        None \<Rightarrow> None
      | Some ks \<Rightarrow> (case get_path ks d of Some (JArr xs) \<Rightarrow> Some xs | _ \<Rightarrow> None))"

definition goto :: "machine \<Rightarrow> string \<Rightarrow> json \<Rightarrow> trace_event list \<Rightarrow> config" where
  "goto M n d tr =
     (case lookup M n of
        None \<Rightarrow> \<lparr>pos = Ended (FAILED ''States.Runtime'' n), data = d, trace = tr\<rparr>
      | Some st \<Rightarrow>
         (case kind st of
            FailState cause err \<Rightarrow>
              \<lparr>pos = Ended (FAILED err cause), data = d, trace = StateEntered n # tr\<rparr>
          | SucceedState \<Rightarrow>
              \<lparr>pos = Ended SUCCEEDED, data = d, trace = StateEntered n # tr\<rparr>
          | MapState mc ip sel proc \<Rightarrow>
              (case items_at ip d of
                 None \<Rightarrow>
                   \<lparr>pos = Ended (FAILED ''States.Runtime'' n), data = d,
                    trace = StateFailed n ''States.Runtime'' # StateEntered n # tr\<rparr>
               | Some items \<Rightarrow>
                   \<lparr>pos = InMap n items 0 [] [], data = d,
                    trace = MapItems n (length items) # StateEntered n # tr\<rparr>)
          | _ \<Rightarrow>
              (case task_parameters (kind st) (context_object n None) d of
                 None \<Rightarrow>
                   \<lparr>pos = Ended (FAILED ''States.Runtime'' n), data = d,
                    trace = StateFailed n ''States.Runtime'' # StateEntered n # tr\<rparr>
               | Some ps \<Rightarrow>
                   \<lparr>pos = AtState n 0, data = d,
                    trace = TaskStarted n ps # StateEntered n # tr\<rparr>)))"

definition fail_state ::
    "machine \<Rightarrow> string \<Rightarrow> state \<Rightarrow> string \<Rightarrow> string \<Rightarrow> json \<Rightarrow> trace_event list \<Rightarrow> config" where
  "fail_state M n st e cause d tr =
     (case find (\<lambda>(errors, rp, h). catch_matches errors e) (catchers st) of
        None \<Rightarrow> \<lparr>pos = Ended (FAILED e cause), data = d, trace = StateFailed n e # tr\<rparr>
      | Some (errors, rp, h) \<Rightarrow>
         (case put_result rp d (error_output e cause) of
            None \<Rightarrow>
              \<lparr>pos = Ended (FAILED ''States.ResultPathMatchFailure'' n), data = d,
               trace = StateFailed n e # tr\<rparr>
          | Some d' \<Rightarrow> goto M h d' (ErrorCaught n e h # StateFailed n e # tr)))"

definition leave :: "machine \<Rightarrow> state \<Rightarrow> json \<Rightarrow> trace_event list \<Rightarrow> config" where
  "leave M st d tr =
     (case nxt st of
        None \<Rightarrow> \<lparr>pos = Ended SUCCEEDED, data = d, trace = tr\<rparr>
      | Some n' \<Rightarrow> goto M n' d tr)"

definition complete ::
    "machine \<Rightarrow> string \<Rightarrow> state \<Rightarrow> json \<Rightarrow> json \<Rightarrow> trace_event list \<Rightarrow> config" where
  "complete M n st d r tr =
     (case apply_result st d r of
        Inl e \<Rightarrow> fail_state M n st e n d tr
      | Inr d' \<Rightarrow> leave M st d' tr)"

definition is_task_kind :: "state_kind \<Rightarrow> bool" where
  "is_task_kind k =
     (case k of
        LambdaInvoke f p \<Rightarrow> True
      | BatchSubmitJob jn q jd cmd ip \<Rightarrow> True
      | _ \<Rightarrow> False)"

definition awaits_job :: "state_kind \<Rightarrow> bool" where
  "awaits_job k =
     (case k of BatchSubmitJob jn q jd cmd ip \<Rightarrow> ip = RUN_JOB | _ \<Rightarrow> False)"

definition item_at :: "json list \<Rightarrow> nat \<Rightarrow> json" where
  "item_at items i = (if i < length items then items ! i else JNull)"

text \<open>
  Iteration \<open>i\<close> of Map state \<open>m\<close> enters state \<open>s\<close> with document \<open>d\<close>: the new iteration
  record and the events to record, or \<open>None\<close> when the parameters cannot be read.
\<close>

definition iter_enter ::
    "machine \<Rightarrow> string \<Rightarrow> nat \<Rightarrow> json \<Rightarrow> string \<Rightarrow> json \<Rightarrow> (iteration \<times> trace_event list) option" where
  "iter_enter M m i item s d =
     (case lookup M s of
        None \<Rightarrow> None
      | Some ist \<Rightarrow>
          if is_task_kind (kind ist)
          then (case task_parameters (kind ist) (context_object s (Some (i, item))) d of
                  None \<Rightarrow> None
                | Some ps \<Rightarrow>
                    Some (Iteration i s False 0 d,
                          [IterTaskStarted m i s ps, IterStateEntered m i s]))
          else None)"

definition start_iteration ::
    "machine \<Rightarrow> config \<Rightarrow> string \<Rightarrow> state \<Rightarrow> (string \<times> string) list \<Rightarrow> string option \<Rightarrow>
     json list \<Rightarrow> nat \<Rightarrow> iteration list \<Rightarrow> (nat \<times> json) list \<Rightarrow> config" where
  "start_iteration M c n st sel proc items k running results =
     (case proc of
        None \<Rightarrow> fail_state M n st ''States.Runtime'' n (data c) (trace c)
      | Some s0 \<Rightarrow>
         (case eval_template sel (context_object n (Some (k, item_at items k))) (data c) of
            None \<Rightarrow> fail_state M n st ''States.Runtime'' n (data c) (trace c)
          | Some kvs \<Rightarrow>
             (case iter_enter M n k (item_at items k) s0 (JObj kvs) of
                None \<Rightarrow>
                  fail_state M n st ''States.Runtime'' n (data c)
                    (MapIterationStarted n k # trace c)
              | Some (it, evs) \<Rightarrow>
                  c\<lparr>pos := InMap n items (Suc k) (running @ [it]) results,
                    trace := evs @ MapIterationStarted n k # trace c\<rparr>)))"

text \<open>The task of iteration \<open>it\<close> has succeeded with output \<open>out\<close>.\<close>

definition iter_task_succeeded ::
    "machine \<Rightarrow> config \<Rightarrow> string \<Rightarrow> state \<Rightarrow> json list \<Rightarrow> nat \<Rightarrow> iteration list \<Rightarrow>
     (nat \<times> json) list \<Rightarrow> iteration \<Rightarrow> state \<Rightarrow> json \<Rightarrow> trace_event list \<Rightarrow> config" where
  "iter_task_succeeded M c n st items k running results it ist out tr =
     (case apply_result ist (it_data it) out of
        Inl e \<Rightarrow> fail_state M n st e (it_state it) (data c) tr
      | Inr d' \<Rightarrow>
         (case nxt ist of
            None \<Rightarrow>
              c\<lparr>pos := InMap n items k (filter (\<lambda>x. it_index x \<noteq> it_index it) running)
                         (results @ [(it_index it, d')]),
                trace := MapIterationSucceeded n (it_index it) # tr\<rparr>
          | Some s' \<Rightarrow>
             (case iter_enter M n (it_index it) (item_at items (it_index it)) s' d' of
                None \<Rightarrow> fail_state M n st ''States.Runtime'' s' (data c) tr
              | Some (it', evs) \<Rightarrow>
                  c\<lparr>pos := InMap n items k
                         (map (\<lambda>x. if it_index x = it_index it then it' else x) running) results,
                    trace := evs @ tr\<rparr>)))"

text \<open>The task of iteration \<open>it\<close> has failed with error \<open>e\<close>: retried, or the Map state fails.\<close>

definition iter_task_failed ::
    "machine \<Rightarrow> config \<Rightarrow> string \<Rightarrow> state \<Rightarrow> json list \<Rightarrow> nat \<Rightarrow> iteration list \<Rightarrow>
     (nat \<times> json) list \<Rightarrow> iteration \<Rightarrow> state \<Rightarrow> string \<Rightarrow> string \<Rightarrow> trace_event list \<Rightarrow> config" where
  "iter_task_failed M c n st items k running results it ist e cause tr =
     (if retry_allowed ist e (it_retries it)
      then c\<lparr>pos := InMap n items k
                 (map (\<lambda>x. if it_index x = it_index it
                            then Iteration (it_index it) (it_state it) False (Suc (it_retries it))
                                   (it_data it)
                            else x) running) results,
             trace := IterTaskRetried n (it_index it) (it_state it) e # tr\<rparr>
      else fail_state M n st e cause (data c)
             (IterTaskFailed n (it_index it) (it_state it) e # tr))"

definition step_task :: "machine \<Rightarrow> config \<Rightarrow> string \<Rightarrow> nat \<Rightarrow> event \<Rightarrow> config" where
  "step_task M c n r ev =
     (case lookup M n of
        None \<Rightarrow> c
      | Some st \<Rightarrow>
         (case ev of
            TaskDone (Ok out) \<Rightarrow> complete M n st (data c) out (TaskSucceeded n # trace c)
          | TaskDone (Err e cause) \<Rightarrow>
              if retry_allowed st e r
              then c\<lparr>pos := AtState n (Suc r), trace := TaskRetried n e # trace c\<rparr>
              else fail_state M n st e cause (data c) (trace c)
          | _ \<Rightarrow> c))"

definition step_iter ::
    "machine \<Rightarrow> config \<Rightarrow> string \<Rightarrow> state \<Rightarrow> json list \<Rightarrow> nat \<Rightarrow> iteration list \<Rightarrow>
     (nat \<times> json) list \<Rightarrow> iteration \<Rightarrow> event \<Rightarrow> config" where
  "step_iter M c n st items k running results it ev =
     (case lookup M (it_state it) of
        None \<Rightarrow> c
      | Some ist \<Rightarrow>
         (case ev of
            IterTaskDone i (Ok out) \<Rightarrow>
              if it_waiting it then c
              else if awaits_job (kind ist)
              then c\<lparr>pos := InMap n items k
                         (map (\<lambda>x. if it_index x = it_index it
                                    then Iteration (it_index it) (it_state it) True
                                           (it_retries it) (it_data it)
                                    else x) running) results,
                     trace := JobSubmitted n (it_index it) (it_state it) # trace c\<rparr>
              else iter_task_succeeded M c n st items k running results it ist out
                     (IterTaskSucceeded n (it_index it) (it_state it) # trace c)
          | IterTaskDone i (Err e cause) \<Rightarrow>
              if it_waiting it then c
              else iter_task_failed M c n st items k running results it ist e cause (trace c)
          | JobEnded i JOB_SUCCEEDED out cause \<Rightarrow>
              if it_waiting it
              then iter_task_succeeded M c n st items k running results it ist out
                     (IterTaskSucceeded n (it_index it) (it_state it) #
                      JobSucceeded n (it_index it) (it_state it) # trace c)
              else c
          | JobEnded i JOB_FAILED out cause \<Rightarrow>
              if it_waiting it
              then iter_task_failed M c n st items k running results it ist
                     ''States.TaskFailed'' cause
                     (JobFailed n (it_index it) (it_state it) # trace c)
              else c
          | _ \<Rightarrow> c))"

definition event_iteration :: "event \<Rightarrow> nat option" where
  "event_iteration ev =
     (case ev of
        IterTaskDone i r \<Rightarrow> Some i
      | JobEnded i s out cause \<Rightarrow> Some i
      | _ \<Rightarrow> None)"

definition step_map ::
    "machine \<Rightarrow> config \<Rightarrow> string \<Rightarrow> json list \<Rightarrow> nat \<Rightarrow> iteration list \<Rightarrow>
     (nat \<times> json) list \<Rightarrow> event \<Rightarrow> config" where
  "step_map M c n items k running results ev =
     (case lookup M n of
        None \<Rightarrow> c
      | Some st \<Rightarrow>
         (case kind st of
            MapState mc ip sel proc \<Rightarrow>
              (case ev of
                 IterStart \<Rightarrow>
                   if k < length items \<and> (mc = 0 \<or> length running < mc)
                   then start_iteration M c n st sel proc items k running results
                   else c
               | MapFinish \<Rightarrow>
                   if k = length items \<and> running = []
                   then complete M n st (data c) (JArr (map snd (sort_key fst results)))
                          (MapStateSucceeded n # trace c)
                   else c
               | TaskDone r \<Rightarrow> c
               | _ \<Rightarrow>
                   (case event_iteration ev of
                      None \<Rightarrow> c
                    | Some i \<Rightarrow>
                       (case find (\<lambda>x. it_index x = i) running of
                          None \<Rightarrow> c
                        | Some it \<Rightarrow> step_iter M c n st items k running results it ev)))
          | _ \<Rightarrow> c))"

definition step :: "machine \<Rightarrow> config \<Rightarrow> event \<Rightarrow> config" where
  "step M c ev =
     (case pos c of
        AtState n r \<Rightarrow> step_task M c n r ev
      | InMap n items k running results \<Rightarrow> step_map M c n items k running results ev
      | Ended out \<Rightarrow> c)"

definition start :: "machine \<Rightarrow> json \<Rightarrow> config" where
  "start M input = goto M (startAt M) input []"

definition run :: "machine \<Rightarrow> json \<Rightarrow> event list \<Rightarrow> config" where
  "run M input evs = foldl (step M) (start M input) evs"

text \<open>
  The number of iterations of the current Map state that are running, and the number of
  its items whose iteration has not been started.
\<close>

fun in_flight :: "position \<Rightarrow> nat" where
  "in_flight (InMap m items k running results) = length running"
| "in_flight _ = 0"

fun not_started :: "position \<Rightarrow> nat" where
  "not_started (InMap m items k running results) = length items - k"
| "not_started _ = 0"

section \<open>Definitions used in the proofs\<close>

text \<open>
  The parameter templates of the workflow's states by name (\<open>job_selector\<close>,
  \<open>calc_payload\<close>, \<open>error_payload\<close>, \<open>success_payload\<close>, \<open>submit_job\<close>, \<open>lambda_retry\<close>),
  the parameters of its two Map states (\<open>mapP\<close>, \<open>mapJ\<close>: the two states of the item
  processor; \<open>mapC\<close>: maxConcurrency; \<open>mapR\<close>: the field of the result path; \<open>mapN\<close>: the
  next state), what a failure of a Map state leads to (\<open>map_failed\<close>, \<open>caught_tail\<close>,
  \<open>caught_outcome\<close>), the transitions of the workflow as a relation on configurations
  (\<open>gstep\<close>), and the invariants of its executions: \<open>rank\<close> orders the trace events along
  the workflow, \<open>pre e tr\<close> is what the trace \<open>tr\<close> must contain at the moment event \<open>e\<close> is
  recorded. The example values are the concrete inputs at which the theorems are
  instantiated: the results of the initialization, job calculation and command parser
  functions carry the fields that the parameters of the following states read.
\<close>

definition job_selector :: "(string \<times> string) list" where
  "job_selector =
     [(''jobId.$'', ''$$.Map.Item.Value.jobId''),
      (''Command.$'', ''$$.Map.Item.Value.Command''),
      (''stepNumber.$'', ''$$.Map.Item.Value.stepNumber''),
      (''workflowId.$'', ''$.workflowId'')]"

definition lambda_retry :: "(string list \<times> nat \<times> nat \<times> nat) list" where
  "lambda_retry = [(lambda_service_exceptions, 2, 6, 2)]"

definition calc_payload :: "(string \<times> string) list" where
  "calc_payload =
     [(''workflowId.$'', ''$.workflowId''), (''s3Path.$'', ''$.s3Path''),
      (''analysisSubdir.$'', ''$.dataBucketPrefix''),
      (''inputData.$'', ''$.parameters.inputData''),
      (''analysisParams.$'', ''$.parameters.analysisParams''),
      (''outputParams.$'', ''$.parameters.outputParams'')]"

definition error_payload :: "(string \<times> string) list" where
  "error_payload =
     [(''workflowId.$'', ''$.workflowId''),
      (''failedJobs.$'', ''$.error.Cause[*].ErrorDetails'')]"

definition success_payload :: "(string \<times> string) list" where
  "success_payload =
     [(''workflowId.$'', ''$.workflowId''),
      (''resultsBucketPath.$'', ''$.resultsBucketPath''),
      (''completionTime.$'', ''$$.State.EnteredTime'')]"

definition submit_job :: "WorkflowStackProps \<Rightarrow> state_kind" where
  "submit_job props =
     BatchSubmitJob ''$.jobId'' (batchJobQueue props) (batchJobDefinition props)
       ''$.parsedCommand.Payload.jobSubmission.ContainerOverrides.Command'' RUN_JOB"

definition mapP :: "string \<Rightarrow> string" where
  "mapP m = (if m = ''SubmitStep1Jobs'' then ''ParseStep1Command'' else ''ParseStep2Command'')"

definition mapJ :: "string \<Rightarrow> string" where
  "mapJ m = (if m = ''SubmitStep1Jobs'' then ''SubmitStep1Job'' else ''SubmitStep2Job'')"

definition mapC :: "string \<Rightarrow> nat" where
  "mapC m = (if m = ''SubmitStep1Jobs'' then 1 else 50)"

definition mapR :: "string \<Rightarrow> string" where
  "mapR m = (if m = ''SubmitStep1Jobs'' then ''Step1BatchJobs'' else ''Step2BatchJobs'')"

definition mapN :: "string \<Rightarrow> string" where
  "mapN m = (if m = ''SubmitStep1Jobs'' then ''SubmitStep2Jobs'' else ''HandleSuccess'')"

definition caught_tail :: "string \<Rightarrow> string \<Rightarrow> trace_event list" where
  "caught_tail m e =
     (if uncatchable e then [StateFailed m e]
      else [StateFailed ''HandleJobErrors'' ''States.Runtime'', StateEntered ''HandleJobErrors'',
            ErrorCaught m e ''HandleJobErrors'', StateFailed m e])"

definition map_failed :: "string \<Rightarrow> string \<Rightarrow> string \<Rightarrow> json \<Rightarrow> trace_event list \<Rightarrow> config" where
  "map_failed m e cause d tr =
     (if uncatchable e
      then \<lparr>pos = Ended (FAILED e cause), data = d, trace = caught_tail m e @ tr\<rparr>
      else (case set_path [''error''] (error_output e cause) d of
              None \<Rightarrow> \<lparr>pos = Ended (FAILED ''States.ResultPathMatchFailure'' m), data = d,
                        trace = StateFailed m e # tr\<rparr>
            | Some d' \<Rightarrow> \<lparr>pos = Ended (FAILED ''States.Runtime'' ''HandleJobErrors''), data = d',
                 trace = caught_tail m e @ tr\<rparr>))"

fun is_obj :: "json \<Rightarrow> bool" where
  "is_obj (JObj kvs) = True"
| "is_obj _ = False"

definition caught_outcome :: "string \<Rightarrow> string \<Rightarrow> outcome" where
  "caught_outcome e cause =
     (if uncatchable e then FAILED e cause else FAILED ''States.Runtime'' ''HandleJobErrors'')"

definition mrank :: "string \<Rightarrow> nat" where
  "mrank m = (if m = ''SubmitStep1Jobs'' then 2 else if m = ''SubmitStep2Jobs'' then 3 else 20)"

definition srank :: "string \<Rightarrow> nat" where
  "srank n =
     (if n = ''InitializeWorkflow'' then 0 else if n = ''CalculateBatchJobs'' then 1
      else if n = ''SubmitStep1Jobs'' then 2 else if n = ''SubmitStep2Jobs'' then 3
      else if n = ''HandleSuccess'' then 4 else if n = ''WorkflowSucceeded'' then 5
      else if n = ''HandleJobErrors'' then 12 else 20)"

fun rank :: "trace_event \<Rightarrow> nat" where
  "rank (StateEntered n) = srank n"
| "rank (TaskStarted n ps) = srank n"
| "rank (TaskRetried n e) = srank n"
| "rank (TaskSucceeded n) =
     (if n = ''InitializeWorkflow'' then 1 else if n = ''CalculateBatchJobs'' then 2
      else if n = ''HandleSuccess'' then 5 else 20)"
| "rank (MapItems m n) = mrank m"
| "rank (MapIterationStarted m i) = mrank m"
| "rank (IterStateEntered m i s) = mrank m"
| "rank (IterTaskStarted m i s ps) = mrank m"
| "rank (IterTaskRetried m i s e) = mrank m"
| "rank (IterTaskSucceeded m i s) = mrank m"
| "rank (JobSubmitted m i s) = mrank m"
| "rank (JobSucceeded m i s) = mrank m"
| "rank (MapIterationSucceeded m i) = mrank m"
| "rank (MapStateSucceeded m) =
     (if m = ''SubmitStep1Jobs'' then 3 else if m = ''SubmitStep2Jobs'' then 4 else 20)"
| "rank (JobFailed m i s) = 12"
| "rank (IterTaskFailed m i s e) = 12"
| "rank (StateFailed n e) = 12"
| "rank (ErrorCaught n e h) = 12"

fun prank :: "position \<Rightarrow> nat" where
  "prank (AtState n r) =
     (if n = ''InitializeWorkflow'' then 0 else if n = ''CalculateBatchJobs'' then 1
      else if n = ''HandleSuccess'' then 4 else 20)"
| "prank (InMap m items k running results) = mrank m"
| "prank (Ended SUCCEEDED) = 5"
| "prank (Ended (FAILED e k)) = 20"

inductive gstep :: "config \<Rightarrow> config \<Rightarrow> bool" where
  g_task_retry:
    "pos c = AtState n r \<Longrightarrow>
     gstep c (c\<lparr>pos := AtState n (Suc r), trace := TaskRetried n e # trace c\<rparr>)"
| g_task_err:
    "pos c = AtState n r \<Longrightarrow>
     gstep c \<lparr>pos = Ended (FAILED e k), data = data c, trace = StateFailed n e # trace c\<rparr>"
| g_task_bad:
    "pos c = AtState n r \<Longrightarrow> n = ''InitializeWorkflow'' \<or> n = ''CalculateBatchJobs'' \<Longrightarrow>
     gstep c \<lparr>pos = Ended (FAILED e k), data = data c,
              trace = StateFailed n e # TaskSucceeded n # trace c\<rparr>"
| g_init_ok:
    "pos c = AtState ''InitializeWorkflow'' r \<Longrightarrow>
     gstep c \<lparr>pos = AtState ''CalculateBatchJobs'' 0, data = d',
              trace = TaskStarted ''CalculateBatchJobs'' ps # StateEntered ''CalculateBatchJobs'' #
                      TaskSucceeded ''InitializeWorkflow'' # trace c\<rparr>"
| g_init_noparams:
    "pos c = AtState ''InitializeWorkflow'' r \<Longrightarrow>
     gstep c \<lparr>pos = Ended (FAILED ''States.Runtime'' k), data = d',
              trace = StateFailed ''CalculateBatchJobs'' ''States.Runtime'' #
                      StateEntered ''CalculateBatchJobs'' #
                      TaskSucceeded ''InitializeWorkflow'' # trace c\<rparr>"
| g_calc_ok:
    "pos c = AtState ''CalculateBatchJobs'' r \<Longrightarrow>
     gstep c \<lparr>pos = InMap ''SubmitStep1Jobs'' items 0 [] [], data = JObj kvs,
              trace = MapItems ''SubmitStep1Jobs'' (length items) # StateEntered ''SubmitStep1Jobs'' #
                      TaskSucceeded ''CalculateBatchJobs'' # trace c\<rparr>"
| g_calc_noitems:
    "pos c = AtState ''CalculateBatchJobs'' r \<Longrightarrow>
     gstep c \<lparr>pos = Ended (FAILED ''States.Runtime'' k), data = d',
              trace = StateFailed ''SubmitStep1Jobs'' ''States.Runtime'' # StateEntered ''SubmitStep1Jobs'' #
                      TaskSucceeded ''CalculateBatchJobs'' # trace c\<rparr>"
| g_iter_start:
    "pos c = InMap m items k running results \<Longrightarrow> k < length items \<Longrightarrow>
     length running < mapC m \<Longrightarrow>
     gstep c (c\<lparr>pos := InMap m items (Suc k)
                         (running @ [Iteration k (mapP m) False 0 (JObj kvs)]) results,
                trace := IterTaskStarted m k (mapP m) ps # IterStateEntered m k (mapP m) #
                         MapIterationStarted m k # trace c\<rparr>)"
| g_sel_fail:
    "pos c = InMap m items k running results \<Longrightarrow>
     gstep c \<lparr>pos = Ended (FAILED ''States.Runtime'' m), data = data c,
              trace = StateFailed m ''States.Runtime'' # trace c\<rparr>"
| g_parse_retry:
    "pos c = InMap m items k running results \<Longrightarrow>
     find (\<lambda>x. it_index x = i) running = Some it \<Longrightarrow> it_state it = mapP m \<Longrightarrow>
     gstep c (c\<lparr>pos := InMap m items k
                  (map (\<lambda>x. if it_index x = i
                             then Iteration i (mapP m) False (Suc (it_retries it)) (it_data it)
                             else x) running) results,
                trace := IterTaskRetried m i (mapP m) e # trace c\<rparr>)"
| g_parse_ok:
    "pos c = InMap m items k running results \<Longrightarrow>
     find (\<lambda>x. it_index x = i) running = Some it \<Longrightarrow> it_state it = mapP m \<Longrightarrow>
     gstep c (c\<lparr>pos := InMap m items k
                  (map (\<lambda>x. if it_index x = i then Iteration i (mapJ m) False 0 (JObj kvs)
                             else x) running) results,
                trace := IterTaskStarted m i (mapJ m) ps # IterStateEntered m i (mapJ m) #
                         IterTaskSucceeded m i (mapP m) # trace c\<rparr>)"
| g_parse_noparams:
    "pos c = InMap m items k running results \<Longrightarrow>
     find (\<lambda>x. it_index x = i) running = Some it \<Longrightarrow> it_state it = mapP m \<Longrightarrow>
     gstep c \<lparr>pos = Ended (FAILED ''States.Runtime'' k'), data = data c,
              trace = StateFailed m ''States.Runtime'' # IterTaskSucceeded m i (mapP m) # trace c\<rparr>"
| g_job_submitted:
    "pos c = InMap m items k running results \<Longrightarrow>
     find (\<lambda>x. it_index x = i) running = Some it \<Longrightarrow> it_state it = mapJ m \<Longrightarrow>
     \<not> it_waiting it \<Longrightarrow>
     gstep c (c\<lparr>pos := InMap m items k
                  (map (\<lambda>x. if it_index x = i
                             then Iteration i (mapJ m) True (it_retries it) (it_data it)
                             else x) running) results,
                trace := JobSubmitted m i (mapJ m) # trace c\<rparr>)"
| g_job_ok:
    "pos c = InMap m items k running results \<Longrightarrow>
     find (\<lambda>x. it_index x = i) running = Some it \<Longrightarrow> it_state it = mapJ m \<Longrightarrow>
     it_waiting it \<Longrightarrow>
     gstep c (c\<lparr>pos := InMap m items k (filter (\<lambda>x. it_index x \<noteq> i) running)
                  (results @ [(i, out)]),
                trace := MapIterationSucceeded m i # IterTaskSucceeded m i (mapJ m) #
                         JobSucceeded m i (mapJ m) # trace c\<rparr>)"
| g_iter_err:
    "pos c = InMap m items k running results \<Longrightarrow>
     find (\<lambda>x. it_index x = i) running = Some it \<Longrightarrow> \<not> it_waiting it \<Longrightarrow>
     gstep c \<lparr>pos = Ended (caught_outcome e cause), data = d',
              trace = caught_tail m e @ IterTaskFailed m i (it_state it) e # trace c\<rparr>"
| g_job_failed:
    "pos c = InMap m items k running results \<Longrightarrow>
     find (\<lambda>x. it_index x = i) running = Some it \<Longrightarrow> it_state it = mapJ m \<Longrightarrow>
     it_waiting it \<Longrightarrow>
     gstep c \<lparr>pos = Ended (caught_outcome ''States.TaskFailed'' cause), data = d',
              trace = caught_tail m ''States.TaskFailed'' @
                      IterTaskFailed m i (mapJ m) ''States.TaskFailed'' #
                      JobFailed m i (mapJ m) # trace c\<rparr>"
| g_finish1:
    "pos c = InMap ''SubmitStep1Jobs'' items (length items) [] results \<Longrightarrow>
     gstep c \<lparr>pos = InMap ''SubmitStep2Jobs'' items2 0 [] [], data = JObj kvs,
              trace = MapItems ''SubmitStep2Jobs'' (length items2) # StateEntered ''SubmitStep2Jobs'' #
                      MapStateSucceeded ''SubmitStep1Jobs'' # trace c\<rparr>"
| g_finish1_noitems:
    "pos c = InMap ''SubmitStep1Jobs'' items (length items) [] results \<Longrightarrow>
     gstep c \<lparr>pos = Ended (FAILED ''States.Runtime'' k), data = d',
              trace = StateFailed ''SubmitStep2Jobs'' ''States.Runtime'' # StateEntered ''SubmitStep2Jobs'' #
                      MapStateSucceeded ''SubmitStep1Jobs'' # trace c\<rparr>"
| g_finish2:
    "pos c = InMap ''SubmitStep2Jobs'' items (length items) [] results \<Longrightarrow>
     gstep c \<lparr>pos = AtState ''HandleSuccess'' 0, data = JObj kvs,
              trace = TaskStarted ''HandleSuccess'' ps # StateEntered ''HandleSuccess'' #
                      MapStateSucceeded ''SubmitStep2Jobs'' # trace c\<rparr>"
| g_finish2_noparams:
    "pos c = InMap ''SubmitStep2Jobs'' items (length items) [] results \<Longrightarrow>
     gstep c \<lparr>pos = Ended (FAILED ''States.Runtime'' k), data = d',
              trace = StateFailed ''HandleSuccess'' ''States.Runtime'' # StateEntered ''HandleSuccess'' #
                      MapStateSucceeded ''SubmitStep2Jobs'' # trace c\<rparr>"
| g_hs_ok:
    "pos c = AtState ''HandleSuccess'' r \<Longrightarrow>
     gstep c \<lparr>pos = Ended SUCCEEDED, data = d',
              trace = StateEntered ''WorkflowSucceeded'' # TaskSucceeded ''HandleSuccess'' # trace c\<rparr>"

definition inv_pos :: "config \<Rightarrow> bool" where
  "inv_pos c =
     (case pos c of
        AtState n r \<Rightarrow>
          (n = ''InitializeWorkflow'' \<or> n = ''CalculateBatchJobs'' \<or>
           (n = ''HandleSuccess'' \<and> is_obj (data c)))
      | InMap m items k running results \<Rightarrow>
          (m = ''SubmitStep1Jobs'' \<or> m = ''SubmitStep2Jobs'') \<and> is_obj (data c) \<and>
          k \<le> length items \<and> length running \<le> mapC m \<and>
          (\<forall>it \<in> set running.
             it_index it < k \<and> is_obj (it_data it) \<and>
             ((it_state it = mapP m \<and> \<not> it_waiting it) \<or> it_state it = mapJ m))
      | Ended out \<Rightarrow> True)"

definition inv_rank :: "config \<Rightarrow> bool" where
  "inv_rank c = (\<forall>e \<in> set (trace c). rank e \<le> prank (pos c))"

definition running_indices :: "iteration list \<Rightarrow> nat set" where
  "running_indices running = it_index ` set running"

definition inv_book :: "config \<Rightarrow> bool" where
  "inv_book c =
     (case pos c of
        AtState n r \<Rightarrow> (\<exists>ps. TaskStarted n ps \<in> set (trace c))
      | InMap m items k running results \<Rightarrow>
          MapItems m (length items) \<in> set (trace c) \<and>
          StateEntered m \<in> set (trace c) \<and>
          (m = ''SubmitStep2Jobs'' \<longrightarrow> MapStateSucceeded ''SubmitStep1Jobs'' \<in> set (trace c)) \<and>
          (\<forall>j<k. j \<in> running_indices running \<or> JobSucceeded m j (mapJ m) \<in> set (trace c))
      | Ended out \<Rightarrow>
          (out = SUCCEEDED \<longrightarrow>
             (\<exists>rest. trace c = StateEntered ''WorkflowSucceeded'' #
                        TaskSucceeded ''HandleSuccess'' # rest)))"

definition inv_fail :: "config \<Rightarrow> bool" where
  "inv_fail c =
     ((\<forall>x \<in> set (trace c). rank x = 12 \<longrightarrow> (\<exists>e k. pos c = Ended (FAILED e k))) \<and>
      (\<forall>m i s e. IterTaskFailed m i s e \<in> set (trace c) \<longrightarrow>
             StateFailed m e \<in> set (trace c) \<and>
             (m = ''SubmitStep1Jobs'' \<or> m = ''SubmitStep2Jobs'') \<and>
             (\<not> uncatchable e \<longrightarrow>
                ErrorCaught m e ''HandleJobErrors'' \<in> set (trace c))) \<and>
      (\<forall>m i s. JobFailed m i s \<in> set (trace c) \<longrightarrow>
             IterTaskFailed m i s ''States.TaskFailed'' \<in> set (trace c)) \<and>
      (\<forall>m e h. ErrorCaught m e h \<in> set (trace c) \<longrightarrow>
             pos c = Ended (FAILED ''States.Runtime'' ''HandleJobErrors'') \<and>
             (\<exists>rest. trace c = StateFailed ''HandleJobErrors'' ''States.Runtime'' #
                        StateEntered ''HandleJobErrors'' # ErrorCaught m e h # rest)) \<and>
      (TaskSucceeded ''HandleSuccess'' \<in> set (trace c) \<or>
       StateEntered ''WorkflowSucceeded'' \<in> set (trace c) \<longrightarrow> pos c = Ended SUCCEEDED))"

definition iter_pre :: "string \<Rightarrow> nat \<Rightarrow> trace_event list \<Rightarrow> bool" where
  "iter_pre m i tr =
     ((\<exists>n. MapItems m n \<in> set tr \<and> i < n) \<and>
      (m = ''SubmitStep2Jobs'' \<longrightarrow>
         MapStateSucceeded ''SubmitStep1Jobs'' \<in> set tr \<and>
         (\<forall>j t. JobFailed ''SubmitStep1Jobs'' j t \<notin> set tr) \<and>
         (\<forall>j t e. IterTaskFailed ''SubmitStep1Jobs'' j t e \<notin> set tr)))"

definition fail_pre :: "string \<Rightarrow> trace_event list \<Rightarrow> bool" where
  "fail_pre m tr =
     (m = ''SubmitStep1Jobs'' \<longrightarrow>
        StateEntered ''SubmitStep2Jobs'' \<notin> set tr \<and>
        (\<forall>j t. IterStateEntered ''SubmitStep2Jobs'' j t \<notin> set tr) \<and>
        (\<forall>j t ps. IterTaskStarted ''SubmitStep2Jobs'' j t ps \<notin> set tr))"

fun pre :: "trace_event \<Rightarrow> trace_event list \<Rightarrow> bool" where
  "pre (MapItems m n) tr = (\<forall>n'. MapItems m n' \<notin> set tr)"
| "pre (IterStateEntered m i s) tr = iter_pre m i tr"
| "pre (IterTaskStarted m i s ps) tr = iter_pre m i tr"
| "pre (MapStateSucceeded m) tr =
     (\<exists>n. MapItems m n \<in> set tr \<and> (\<forall>j<n. JobSucceeded m j (mapJ m) \<in> set tr))"
| "pre (JobFailed m i s) tr = fail_pre m tr"
| "pre (IterTaskFailed m i s e) tr = fail_pre m tr"
| "pre (StateEntered n) tr =
     (n \<noteq> ''WorkflowFailed'' \<and>
      (n = ''SubmitStep2Jobs'' \<longrightarrow>
         (\<exists>rest. tr = MapStateSucceeded ''SubmitStep1Jobs'' # rest) \<and>
         StateEntered ''SubmitStep1Jobs'' \<in> set tr) \<and>
      (n = ''HandleJobErrors'' \<longrightarrow>
         (\<exists>m e rest. tr = ErrorCaught m e ''HandleJobErrors'' # StateFailed m e # rest \<and>
            (m = ''SubmitStep1Jobs'' \<or> m = ''SubmitStep2Jobs'') \<and> \<not> uncatchable e)) \<and>
      (n = ''WorkflowSucceeded'' \<longrightarrow>
         (\<exists>rest. tr = TaskSucceeded ''HandleSuccess'' # rest)) \<and>
      (n = ''HandleSuccess'' \<longrightarrow>
         (\<exists>rest. tr = MapStateSucceeded ''SubmitStep2Jobs'' # rest)))"
| "pre (TaskStarted n ps) tr =
     (n \<noteq> ''HandleJobErrors'' \<and> (\<exists>rest. tr = StateEntered n # rest))"
| "pre (TaskSucceeded n) tr = (\<exists>ps. TaskStarted n ps \<in> set tr)"
| "pre (ErrorCaught m e h) tr =
     (h = ''HandleJobErrors'' \<and> (m = ''SubmitStep1Jobs'' \<or> m = ''SubmitStep2Jobs'') \<and>
      \<not> uncatchable e)"
| "pre (TaskRetried n e) tr = True"
| "pre (MapIterationStarted m i) tr = True"
| "pre (IterTaskRetried m i s e) tr = True"
| "pre (IterTaskSucceeded m i s) tr = True"
| "pre (JobSubmitted m i s) tr = True"
| "pre (JobSucceeded m i s) tr = True"
| "pre (MapIterationSucceeded m i) tr = True"
| "pre (StateFailed n e) tr = True"

fun wf_trace :: "trace_event list \<Rightarrow> bool" where
  "wf_trace [] = True"
| "wf_trace (e # tr) = (pre e tr \<and> wf_trace tr)"

definition inv_wf :: "config \<Rightarrow> bool" where
  "inv_wf c = wf_trace (trace c)"

definition all_inv :: "config \<Rightarrow> bool" where
  "all_inv c = (inv_pos c \<and> inv_rank c \<and> inv_book c \<and> inv_fail c \<and> inv_wf c)"

definition example_props :: WorkflowStackProps where
  "example_props =
     \<lparr>workflowInitFunction = ''workflow_init'', jobCalculatorFunction = ''job_calculator'',
      errorHandlerFunction = ''error_handler'', commandParserFunction = ''command_parser'',
      successHandlerFunction = ''success_handler'', batchJobQueue = ''GwasJobQueue'',
      batchJobDefinition = ''RegenieJobDefinition''\<rparr>"

definition example_input :: json where
  "example_input =
     JObj [(''bucket'', JStr ''data''), (''key'', JStr ''study/manifest.json'')]"

definition example_job :: "string \<Rightarrow> int \<Rightarrow> json" where
  "example_job jid n =
     JObj [(''jobId'', JStr jid), (''Command'', JStr ''regenie''), (''stepNumber'', JNum n)]"

definition init_result :: json where
  "init_result =
     JObj [(''Payload'',
            JObj [(''workflowId'', JStr ''wf-1''),
                  (''s3Path'', JStr ''s3://data/study/''),
                  (''dataBucketPrefix'', JStr ''study''),
                  (''parameters'',
                   JObj [(''inputData'', JObj []), (''analysisParams'', JObj []),
                         (''outputParams'', JObj [])]),
                  (''resultsBucketPath'', JStr ''s3://results/wf-1'')])]"

definition calc_result :: "json list \<Rightarrow> json list \<Rightarrow> json" where
  "calc_result jobs1 jobs2 =
     JObj [(''Payload'', JObj [(''step1Jobs'', JArr jobs1), (''step2Jobs'', JArr jobs2)])]"

definition parser_result :: json where
  "parser_result =
     JObj [(''Payload'',
            JObj [(''jobSubmission'',
                   JObj [(''ContainerOverrides'',
                          JObj [(''Command'', JArr [JStr ''regenie'', JStr ''--step''])])])])]"

definition submit_result :: json where
  "submit_result = JObj [(''JobId'', JStr ''job-1''), (''JobName'', JStr ''step1'')]"

definition job_result :: json where
  "job_result = JObj [(''JobId'', JStr ''job-1''), (''Status'', JStr ''SUCCEEDED'')]"

section \<open>Lemmas\<close>

lemma ends_with_iff: "ends_with s v \<longleftrightarrow> (\<exists>p. v = p @ s)"
proof
  assume "ends_with s v"
  then have "v = take (length v - length s) v @ s"
    by (metis append_take_drop_id ends_with_def)
  then show "\<exists>p. v = p @ s" ..
next
  assume "\<exists>p. v = p @ s"
  then show "ends_with s v" by (auto simp: ends_with_def)
qed

lemma manifest_rule_matches: "pattern_matches (eventPattern (ManifestEventBridgeRule b)) e \<longleftrightarrow>
      ev_source e = ''aws.s3'' \<and> ev_detail_type e = ''Object Created'' \<and>
      ev_bucket_name e = b \<and> ends_with ''.json'' (ev_object_key e)"
    by (simp add: ManifestEventBridgeRule_def addTarget_def pattern_matches_def
        field_matches_def)

lemma manifest_rule_targets: "targets (ManifestEventBridgeRule b) = [SnsTopic ''ManifestNotificationTopic'']"
    by (simp add: ManifestEventBridgeRule_def addTarget_def)

lemma manifest_rule_pipeline: "trigger_pipeline (ManifestEventBridgeRule b) e =
      (if pattern_matches (eventPattern (ManifestEventBridgeRule b)) e
       then [(''ManifestNotificationTopic'', ''ManifestQueue'', ''ManifestProcessorFunction'')]
       else [])"
    by (simp add: trigger_pipeline_def manifest_rule_targets topic_subscriptions_def event_source_mappings_def)

lemma G_states:
  "states (createGwasWorkflow props) =
   [(''InitializeWorkflow'',
     \<lparr>kind = LambdaInvoke (workflowInitFunction props) None, inputPath = None,
      outputPath = Some ''$.Payload'', resultPath = None,
      nxt = Some ''CalculateBatchJobs'', catchers = [], retry = lambda_retry\<rparr>),
    (''CalculateBatchJobs'',
     \<lparr>kind = LambdaInvoke (jobCalculatorFunction props) (Some calc_payload),
      inputPath = Some ''$'', outputPath = None,
      resultPath = Some ''$.JobCalculation'',
      nxt = Some ''SubmitStep1Jobs'', catchers = [], retry = lambda_retry\<rparr>),
    (''ParseStep1Command'',
     \<lparr>kind = LambdaInvoke (commandParserFunction props) None, inputPath = Some ''$'',
      outputPath = None, resultPath = Some ''$.parsedCommand'',
      nxt = Some ''SubmitStep1Job'', catchers = [], retry = lambda_retry\<rparr>),
    (''ParseStep2Command'',
     \<lparr>kind = LambdaInvoke (commandParserFunction props) None, inputPath = Some ''$'',
      outputPath = None, resultPath = Some ''$.parsedCommand'',
      nxt = Some ''SubmitStep2Job'', catchers = [], retry = lambda_retry\<rparr>),
    (''SubmitStep1Job'',
     \<lparr>kind = submit_job props,
      inputPath = None, outputPath = None, resultPath = None, nxt = None,
      catchers = [], retry = []\<rparr>),
    (''SubmitStep2Job'',
     \<lparr>kind = submit_job props,
      inputPath = None, outputPath = None, resultPath = None, nxt = None,
      catchers = [], retry = []\<rparr>),
    (''HandleJobErrors'',
     \<lparr>kind = LambdaInvoke (errorHandlerFunction props) (Some error_payload),
      inputPath = Some ''$'', outputPath = None,
      resultPath = Some ''$.errorHandlingResult'',
      nxt = Some ''WorkflowFailed'', catchers = [], retry = lambda_retry\<rparr>),
    (''WorkflowFailed'',
     \<lparr>kind = FailState ''Job execution failed'' ''BatchJobError'', inputPath = None,
      outputPath = None, resultPath = None, nxt = None, catchers = [], retry = []\<rparr>),
    (''SubmitStep1Jobs'',
     \<lparr>kind = MapState 1 ''$.JobCalculation.Payload.step1Jobs'' job_selector
        (Some ''ParseStep1Command''),
      inputPath = None, outputPath = None, resultPath = Some ''$.Step1BatchJobs'',
      nxt = Some ''SubmitStep2Jobs'',
      catchers = [([''States.ALL''], Some ''$.error'', ''HandleJobErrors'')], retry = []\<rparr>),
    (''SubmitStep2Jobs'',
     \<lparr>kind = MapState 50 ''$.JobCalculation.Payload.step2Jobs'' job_selector
        (Some ''ParseStep2Command''),
      inputPath = None, outputPath = None, resultPath = Some ''$.Step2BatchJobs'',
      nxt = Some ''HandleSuccess'',
      catchers = [([''States.ALL''], Some ''$.error'', ''HandleJobErrors'')], retry = []\<rparr>),
    (''HandleSuccess'',
     \<lparr>kind = LambdaInvoke (successHandlerFunction props) (Some success_payload),
      inputPath = Some ''$'', outputPath = None, resultPath = Some ''$.successResult'',
      nxt = Some ''WorkflowSucceeded'', catchers = [], retry = lambda_retry\<rparr>),
    (''WorkflowSucceeded'',
     \<lparr>kind = SucceedState, inputPath = None, outputPath = None, resultPath = None,
      nxt = None, catchers = [], retry = []\<rparr>)]"
  by (simp add: createGwasWorkflow_def Let_def new_state_def tasks_LambdaInvoke_def next_to_def
      addCatch_def itemProcessor_def modify_def job_selector_def lambda_retry_def
      calc_payload_def error_payload_def success_payload_def submit_job_def)

lemma G_startAt: "startAt (createGwasWorkflow props) = ''InitializeWorkflow''"
  by (simp add: createGwasWorkflow_def Let_def)

lemma parse_paths:
  "parse_path ''$.Payload'' = Some [''Payload'']"
  "parse_path ''$.JobCalculation'' = Some [''JobCalculation'']"
  "parse_path ''$.parsedCommand'' = Some [''parsedCommand'']"
  "parse_path ''$.errorHandlingResult'' = Some [''errorHandlingResult'']"
  "parse_path ''$.Step1BatchJobs'' = Some [''Step1BatchJobs'']"
  "parse_path ''$.Step2BatchJobs'' = Some [''Step2BatchJobs'']"
  "parse_path ''$.error'' = Some [''error'']"
  "parse_path ''$.successResult'' = Some [''successResult'']"
  "parse_path ''$.JobCalculation.Payload.step1Jobs'' = Some [''JobCalculation'', ''Payload'', ''step1Jobs'']"
  "parse_path ''$.JobCalculation.Payload.step2Jobs'' = Some [''JobCalculation'', ''Payload'', ''step2Jobs'']"
  by (simp_all add: parse_path_def)

lemma lookup_G:
  "lookup (createGwasWorkflow props) ''InitializeWorkflow'' = Some
     \<lparr>kind = LambdaInvoke (workflowInitFunction props) None, inputPath = None,
      outputPath = Some ''$.Payload'', resultPath = None,
      nxt = Some ''CalculateBatchJobs'', catchers = [], retry = lambda_retry\<rparr>"
  "lookup (createGwasWorkflow props) ''CalculateBatchJobs'' = Some
     \<lparr>kind = LambdaInvoke (jobCalculatorFunction props) (Some calc_payload),
      inputPath = Some ''$'', outputPath = None,
      resultPath = Some ''$.JobCalculation'',
      nxt = Some ''SubmitStep1Jobs'', catchers = [], retry = lambda_retry\<rparr>"
  "lookup (createGwasWorkflow props) ''HandleJobErrors'' = Some
     \<lparr>kind = LambdaInvoke (errorHandlerFunction props) (Some error_payload),
      inputPath = Some ''$'', outputPath = None,
      resultPath = Some ''$.errorHandlingResult'',
      nxt = Some ''WorkflowFailed'', catchers = [], retry = lambda_retry\<rparr>"
  "lookup (createGwasWorkflow props) ''HandleSuccess'' = Some
     \<lparr>kind = LambdaInvoke (successHandlerFunction props) (Some success_payload),
      inputPath = Some ''$'', outputPath = None, resultPath = Some ''$.successResult'',
      nxt = Some ''WorkflowSucceeded'', catchers = [], retry = lambda_retry\<rparr>"
  "lookup (createGwasWorkflow props) ''WorkflowFailed'' = Some
     \<lparr>kind = FailState ''Job execution failed'' ''BatchJobError'', inputPath = None,
      outputPath = None, resultPath = None, nxt = None, catchers = [], retry = []\<rparr>"
  "lookup (createGwasWorkflow props) ''WorkflowSucceeded'' = Some
     \<lparr>kind = SucceedState, inputPath = None, outputPath = None, resultPath = None,
      nxt = None, catchers = [], retry = []\<rparr>"
  by (simp_all add: lookup_def G_states)

lemma lookup_map:
  "lookup (createGwasWorkflow props) ''SubmitStep1Jobs'' = Some
     \<lparr>kind = MapState 1 ''$.JobCalculation.Payload.step1Jobs'' job_selector (Some ''ParseStep1Command''),
      inputPath = None, outputPath = None, resultPath = Some ''$.Step1BatchJobs'',
      nxt = Some ''SubmitStep2Jobs'',
      catchers = [([''States.ALL''], Some ''$.error'', ''HandleJobErrors'')], retry = []\<rparr>"
  "lookup (createGwasWorkflow props) ''SubmitStep2Jobs'' = Some
     \<lparr>kind = MapState 50 ''$.JobCalculation.Payload.step2Jobs'' job_selector (Some ''ParseStep2Command''),
      inputPath = None, outputPath = None, resultPath = Some ''$.Step2BatchJobs'',
      nxt = Some ''HandleSuccess'',
      catchers = [([''States.ALL''], Some ''$.error'', ''HandleJobErrors'')], retry = []\<rparr>"
  by (simp_all add: lookup_def G_states)

lemma lookup_iter:
  "lookup (createGwasWorkflow props) ''ParseStep1Command'' = Some
     \<lparr>kind = LambdaInvoke (commandParserFunction props) None, inputPath = Some ''$'',
      outputPath = None, resultPath = Some ''$.parsedCommand'',
      nxt = Some ''SubmitStep1Job'', catchers = [], retry = lambda_retry\<rparr>"
  "lookup (createGwasWorkflow props) ''ParseStep2Command'' = Some
     \<lparr>kind = LambdaInvoke (commandParserFunction props) None, inputPath = Some ''$'',
      outputPath = None, resultPath = Some ''$.parsedCommand'',
      nxt = Some ''SubmitStep2Job'', catchers = [], retry = lambda_retry\<rparr>"
  "lookup (createGwasWorkflow props) ''SubmitStep1Job'' = Some
     \<lparr>kind = submit_job props,
      inputPath = None, outputPath = None, resultPath = None, nxt = None,
      catchers = [], retry = []\<rparr>"
  "lookup (createGwasWorkflow props) ''SubmitStep2Job'' = Some
     \<lparr>kind = submit_job props,
      inputPath = None, outputPath = None, resultPath = None, nxt = None,
      catchers = [], retry = []\<rparr>"
  by (simp_all add: lookup_def G_states)

lemma map_consts [simp]:
  "mapP ''SubmitStep1Jobs'' = ''ParseStep1Command''" "mapP ''SubmitStep2Jobs'' = ''ParseStep2Command''"
  "mapJ ''SubmitStep1Jobs'' = ''SubmitStep1Job''" "mapJ ''SubmitStep2Jobs'' = ''SubmitStep2Job''"
  "mapC ''SubmitStep1Jobs'' = 1" "mapC ''SubmitStep2Jobs'' = 50"
  "mapR ''SubmitStep1Jobs'' = ''Step1BatchJobs''" "mapR ''SubmitStep2Jobs'' = ''Step2BatchJobs''"
  "mapN ''SubmitStep1Jobs'' = ''SubmitStep2Jobs''" "mapN ''SubmitStep2Jobs'' = ''HandleSuccess''"
  by (simp_all add: mapP_def mapJ_def mapC_def mapR_def mapN_def)

lemma map_of_update_key: "map_of (update_key k v kvs) k = Some v"
  by (induction kvs) auto

lemma set_path_top: "set_path [k] v d = Some d' \<Longrightarrow> lookup_key k d' = Some v"
  by (cases d) (auto simp: map_of_update_key)

lemma error_payload_unreadable:
  assumes "lookup_key ''error'' d = Some (error_output e cause)"
  shows "task_parameters (LambdaInvoke f (Some error_payload)) ctx d = None"
  using assms
  by (simp add: task_parameters_def error_payload_def select_value_def ends_with_def
      error_output_def split: option.splits)

lemma goto_task:
  assumes "lookup M n = Some st" and "is_task_kind (kind st)"
  shows "goto M n d tr =
     (case task_parameters (kind st) (context_object n None) d of
        None \<Rightarrow> \<lparr>pos = Ended (FAILED ''States.Runtime'' n), data = d,
                  trace = StateFailed n ''States.Runtime'' # StateEntered n # tr\<rparr>
      | Some ps \<Rightarrow> \<lparr>pos = AtState n 0, data = d,
                  trace = TaskStarted n ps # StateEntered n # tr\<rparr>)"
  using assms by (cases "kind st") (simp_all add: goto_def is_task_kind_def)

lemma goto_init:
  "goto (createGwasWorkflow props) ''InitializeWorkflow'' d tr =
     \<lparr>pos = AtState ''InitializeWorkflow'' 0, data = d,
      trace = TaskStarted ''InitializeWorkflow'' d # StateEntered ''InitializeWorkflow'' # tr\<rparr>"
  by (simp add: goto_task [OF lookup_G(1)] is_task_kind_def task_parameters_def)

lemma goto_calc:
  "goto (createGwasWorkflow props) ''CalculateBatchJobs'' d tr =
     (case task_parameters (LambdaInvoke (jobCalculatorFunction props) (Some calc_payload))
             (context_object ''CalculateBatchJobs'' None) d of
        None \<Rightarrow> \<lparr>pos = Ended (FAILED ''States.Runtime'' ''CalculateBatchJobs''), data = d,
                  trace = StateFailed ''CalculateBatchJobs'' ''States.Runtime'' #
                          StateEntered ''CalculateBatchJobs'' # tr\<rparr>
      | Some ps \<Rightarrow> \<lparr>pos = AtState ''CalculateBatchJobs'' 0, data = d,
                  trace = TaskStarted ''CalculateBatchJobs'' ps #
                          StateEntered ''CalculateBatchJobs'' # tr\<rparr>)"
  by (simp add: goto_task [OF lookup_G(2)] is_task_kind_def)

lemma goto_hs:
  "goto (createGwasWorkflow props) ''HandleSuccess'' d tr =
     (case task_parameters (LambdaInvoke (successHandlerFunction props) (Some success_payload))
             (context_object ''HandleSuccess'' None) d of
        None \<Rightarrow> \<lparr>pos = Ended (FAILED ''States.Runtime'' ''HandleSuccess''), data = d,
                  trace = StateFailed ''HandleSuccess'' ''States.Runtime'' #
                          StateEntered ''HandleSuccess'' # tr\<rparr>
      | Some ps \<Rightarrow> \<lparr>pos = AtState ''HandleSuccess'' 0, data = d,
                  trace = TaskStarted ''HandleSuccess'' ps #
                          StateEntered ''HandleSuccess'' # tr\<rparr>)"
  by (simp add: goto_task [OF lookup_G(4)] is_task_kind_def)

lemma goto_hje:
  assumes "lookup_key ''error'' d = Some (error_output e cause)"
  shows "goto (createGwasWorkflow props) ''HandleJobErrors'' d tr =
     \<lparr>pos = Ended (FAILED ''States.Runtime'' ''HandleJobErrors''), data = d,
      trace = StateFailed ''HandleJobErrors'' ''States.Runtime'' #
              StateEntered ''HandleJobErrors'' # tr\<rparr>"
  by (simp add: goto_task [OF lookup_G(3)] is_task_kind_def error_payload_unreadable [OF assms])

lemma goto_final:
  "goto (createGwasWorkflow props) ''WorkflowFailed'' d tr =
     \<lparr>pos = Ended (FAILED ''BatchJobError'' ''Job execution failed''), data = d,
      trace = StateEntered ''WorkflowFailed'' # tr\<rparr>"
  "goto (createGwasWorkflow props) ''WorkflowSucceeded'' d tr =
     \<lparr>pos = Ended SUCCEEDED, data = d, trace = StateEntered ''WorkflowSucceeded'' # tr\<rparr>"
  by (simp_all add: goto_def lookup_G)

lemma goto_map:
  "goto (createGwasWorkflow props) ''SubmitStep1Jobs'' d tr =
     (case items_at ''$.JobCalculation.Payload.step1Jobs'' d of
        None \<Rightarrow> \<lparr>pos = Ended (FAILED ''States.Runtime'' ''SubmitStep1Jobs''), data = d,
                  trace = StateFailed ''SubmitStep1Jobs'' ''States.Runtime'' # StateEntered ''SubmitStep1Jobs'' # tr\<rparr>
      | Some items \<Rightarrow> \<lparr>pos = InMap ''SubmitStep1Jobs'' items 0 [] [], data = d,
                  trace = MapItems ''SubmitStep1Jobs'' (length items) # StateEntered ''SubmitStep1Jobs'' # tr\<rparr>)"
  "goto (createGwasWorkflow props) ''SubmitStep2Jobs'' d tr =
     (case items_at ''$.JobCalculation.Payload.step2Jobs'' d of
        None \<Rightarrow> \<lparr>pos = Ended (FAILED ''States.Runtime'' ''SubmitStep2Jobs''), data = d,
                  trace = StateFailed ''SubmitStep2Jobs'' ''States.Runtime'' # StateEntered ''SubmitStep2Jobs'' # tr\<rparr>
      | Some items \<Rightarrow> \<lparr>pos = InMap ''SubmitStep2Jobs'' items 0 [] [], data = d,
                  trace = MapItems ''SubmitStep2Jobs'' (length items) # StateEntered ''SubmitStep2Jobs'' # tr\<rparr>)"
  by (simp_all add: goto_def lookup_map)

lemma fail_state_nocatch:
  "catchers st = [] \<Longrightarrow>
   fail_state M n st e cause d tr =
     \<lparr>pos = Ended (FAILED e cause), data = d, trace = StateFailed n e # tr\<rparr>"
  by (simp add: fail_state_def)

lemma fail_state_map:
  "catchers st = [([''States.ALL''], Some ''$.error'', ''HandleJobErrors'')] \<Longrightarrow>
   fail_state (createGwasWorkflow props) m st e cause d tr = map_failed m e cause d tr"
  by (auto simp add: fail_state_def map_failed_def caught_tail_def catch_matches_def
      put_result_def parse_paths goto_hje [OF set_path_top] split: option.splits)

lemma step_ended: "pos c = Ended out \<Longrightarrow> step M c ev = c"
  by (simp add: step_def)

lemma step_task_other:
  assumes "pos c = AtState n r"
  shows "step M c IterStart = c" "step M c (IterTaskDone i x) = c"
    "step M c (JobEnded i s out k) = c" "step M c MapFinish = c"
  using assms by (simp_all add: step_def step_task_def split: option.splits)

lemma step_task_err:
  assumes "pos c = AtState n r" and "lookup M n = Some st" and "catchers st = []"
  shows "step M c (TaskDone (Err e k)) =
     (if retry_allowed st e r
      then c\<lparr>pos := AtState n (Suc r), trace := TaskRetried n e # trace c\<rparr>
      else \<lparr>pos = Ended (FAILED e k), data = data c, trace = StateFailed n e # trace c\<rparr>)"
  using assms by (simp add: step_def step_task_def fail_state_nocatch)

lemma step_init_ok:
  assumes "pos c = AtState ''InitializeWorkflow'' r"
  shows "step (createGwasWorkflow props) c (TaskDone (Ok out)) =
     (case get_path [''Payload''] out of
        None \<Rightarrow> \<lparr>pos = Ended (FAILED ''States.Runtime'' ''InitializeWorkflow''), data = data c,
                  trace = StateFailed ''InitializeWorkflow'' ''States.Runtime'' #
                          TaskSucceeded ''InitializeWorkflow'' # trace c\<rparr>
      | Some d' \<Rightarrow> goto (createGwasWorkflow props) ''CalculateBatchJobs'' d'
                    (TaskSucceeded ''InitializeWorkflow'' # trace c))"
  using assms
  by (simp add: step_def step_task_def complete_def leave_def apply_result_def
      put_result_def filter_output_def fail_state_nocatch lookup_G parse_paths
      split: option.splits)

lemma step_calc_ok:
  assumes "pos c = AtState ''CalculateBatchJobs'' r"
  shows "step (createGwasWorkflow props) c (TaskDone (Ok out)) =
     (case set_path [''JobCalculation''] out (data c) of
        None \<Rightarrow> \<lparr>pos = Ended (FAILED ''States.ResultPathMatchFailure'' ''CalculateBatchJobs''),
                  data = data c,
                  trace = StateFailed ''CalculateBatchJobs'' ''States.ResultPathMatchFailure'' #
                          TaskSucceeded ''CalculateBatchJobs'' # trace c\<rparr>
      | Some d' \<Rightarrow> goto (createGwasWorkflow props) ''SubmitStep1Jobs'' d'
                    (TaskSucceeded ''CalculateBatchJobs'' # trace c))"
  using assms
  by (simp add: step_def step_task_def complete_def leave_def apply_result_def
      put_result_def filter_output_def fail_state_nocatch lookup_G parse_paths
      split: option.splits)

lemma step_hs_ok:
  assumes "pos c = AtState ''HandleSuccess'' r"
  shows "step (createGwasWorkflow props) c (TaskDone (Ok out)) =
     (case set_path [''successResult''] out (data c) of
        None \<Rightarrow> \<lparr>pos = Ended (FAILED ''States.ResultPathMatchFailure'' ''HandleSuccess''),
                  data = data c,
                  trace = StateFailed ''HandleSuccess'' ''States.ResultPathMatchFailure'' #
                          TaskSucceeded ''HandleSuccess'' # trace c\<rparr>
      | Some d' \<Rightarrow> \<lparr>pos = Ended SUCCEEDED, data = d',
                  trace = StateEntered ''WorkflowSucceeded'' #
                          TaskSucceeded ''HandleSuccess'' # trace c\<rparr>)"
  using assms
  by (simp add: step_def step_task_def complete_def leave_def apply_result_def
      put_result_def filter_output_def fail_state_nocatch goto_final lookup_G parse_paths
      split: option.splits)

lemma retry_allowed_none: "retry st = [] \<Longrightarrow> \<not> retry_allowed st e r"
  by (simp add: retry_allowed_def)

lemma iter_enter_parse:
  assumes "m = ''SubmitStep1Jobs'' \<or> m = ''SubmitStep2Jobs''"
  shows "iter_enter (createGwasWorkflow props) m i item (mapP m) d =
     Some (Iteration i (mapP m) False 0 d,
           [IterTaskStarted m i (mapP m) d, IterStateEntered m i (mapP m)])"
  using assms
  by (auto simp add: iter_enter_def lookup_iter is_task_kind_def task_parameters_def)

lemma iter_enter_job:
  assumes "m = ''SubmitStep1Jobs'' \<or> m = ''SubmitStep2Jobs''"
  shows "iter_enter (createGwasWorkflow props) m i item (mapJ m) d =
     (case task_parameters (submit_job props) (context_object (mapJ m) (Some (i, item))) d of
        None \<Rightarrow> None
      | Some ps \<Rightarrow>
          Some (Iteration i (mapJ m) False 0 d,
                [IterTaskStarted m i (mapJ m) ps, IterStateEntered m i (mapJ m)]))"
  using assms
  by (auto simp add: iter_enter_def lookup_iter is_task_kind_def submit_job_def)

lemma map_failed_runtime:
  "map_failed m ''States.Runtime'' k d tr =
     \<lparr>pos = Ended (FAILED ''States.Runtime'' k), data = d,
      trace = StateFailed m ''States.Runtime'' # tr\<rparr>"
  by (simp add: map_failed_def caught_tail_def uncatchable_def)

lemma step_map_start:
  assumes "pos c = InMap m items k running results"
    and "m = ''SubmitStep1Jobs'' \<or> m = ''SubmitStep2Jobs''"
  shows "step (createGwasWorkflow props) c IterStart =
     (if k < length items \<and> length running < mapC m
      then (case eval_template job_selector (context_object m (Some (k, item_at items k))) (data c) of
              None \<Rightarrow> \<lparr>pos = Ended (FAILED ''States.Runtime'' m), data = data c,
                        trace = StateFailed m ''States.Runtime'' # trace c\<rparr>
            | Some kvs \<Rightarrow>
                c\<lparr>pos := InMap m items (Suc k)
                            (running @ [Iteration k (mapP m) False 0 (JObj kvs)]) results,
                  trace := IterTaskStarted m k (mapP m) (JObj kvs) #
                           IterStateEntered m k (mapP m) # MapIterationStarted m k # trace c\<rparr>)
      else c)"
  using assms iter_enter_parse [of m props]
  by (auto simp add: step_def step_map_def start_iteration_def fail_state_map
      map_failed_runtime lookup_map split: option.splits)

lemma step_map_taskdone:
  assumes "pos c = InMap m items k running results"
  shows "step M c (TaskDone r) = c"
  using assms by (auto simp add: step_def step_map_def split: option.splits state_kind.splits)

lemma step_map_none:
  assumes "pos c = InMap m items k running results"
    and "find (\<lambda>x. it_index x = i) running = None"
  shows "step M c (IterTaskDone i r) = c" "step M c (JobEnded i s out cause) = c"
  using assms
  by (simp_all add: step_def step_map_def event_iteration_def
      split: option.splits state_kind.splits)

lemma step_map_parse_ok:
  assumes "pos c = InMap m items k running results"
    and "m = ''SubmitStep1Jobs'' \<or> m = ''SubmitStep2Jobs''"
    and "find (\<lambda>x. it_index x = i) running = Some it"
    and "it_state it = mapP m" and "\<not> it_waiting it" and "it_data it = JObj kvs"
  shows "step (createGwasWorkflow props) c (IterTaskDone i (Ok out)) =
     (case task_parameters (submit_job props)
             (context_object (mapJ m) (Some (it_index it, item_at items (it_index it))))
             (JObj (update_key ''parsedCommand'' out kvs)) of
        None \<Rightarrow>
          \<lparr>pos = Ended (FAILED ''States.Runtime'' (mapJ m)), data = data c,
           trace = StateFailed m ''States.Runtime'' #
                   IterTaskSucceeded m (it_index it) (mapP m) # trace c\<rparr>
      | Some ps \<Rightarrow>
          c\<lparr>pos := InMap m items k
                 (map (\<lambda>x. if it_index x = it_index it
                            then Iteration (it_index it) (mapJ m) False 0
                                   (JObj (update_key ''parsedCommand'' out kvs))
                            else x) running) results,
            trace := IterTaskStarted m (it_index it) (mapJ m) ps #
                     IterStateEntered m (it_index it) (mapJ m) #
                     IterTaskSucceeded m (it_index it) (mapP m) # trace c\<rparr>)"
  using assms iter_enter_job [of m props]
  by (auto simp add: step_def step_map_def step_iter_def event_iteration_def
      iter_task_succeeded_def awaits_job_def apply_result_def put_result_def filter_output_def
      fail_state_map map_failed_runtime lookup_map lookup_iter parse_paths
      split: option.splits cong del: if_weak_cong)

lemma step_map_parse_err:
  assumes "pos c = InMap m items k running results"
    and "m = ''SubmitStep1Jobs'' \<or> m = ''SubmitStep2Jobs''"
    and "find (\<lambda>x. it_index x = i) running = Some it"
    and "it_state it = mapP m" and "\<not> it_waiting it"
  shows "step (createGwasWorkflow props) c (IterTaskDone i (Err e cause)) =
     (if catch_matches lambda_service_exceptions e \<and> it_retries it < 6
      then c\<lparr>pos := InMap m items k
                 (map (\<lambda>x. if it_index x = it_index it
                            then Iteration (it_index it) (mapP m) False (Suc (it_retries it))
                                   (it_data it)
                            else x) running) results,
             trace := IterTaskRetried m (it_index it) (mapP m) e # trace c\<rparr>
      else map_failed m e cause (data c) (IterTaskFailed m (it_index it) (mapP m) e # trace c))"
  using assms
  by (auto simp add: step_def step_map_def step_iter_def event_iteration_def
      iter_task_failed_def retry_allowed_def lambda_retry_def
      fail_state_map lookup_map lookup_iter cong del: if_weak_cong)

lemma step_map_not_waiting:
  assumes "pos c = InMap m items k running results"
    and "find (\<lambda>x. it_index x = i) running = Some it" and "\<not> it_waiting it"
  shows "step M c (JobEnded i s out cause) = c"
  using assms
  by (cases s) (simp_all add: step_def step_map_def step_iter_def event_iteration_def
      split: option.splits state_kind.splits)

lemma step_map_waiting:
  assumes "pos c = InMap m items k running results"
    and "find (\<lambda>x. it_index x = i) running = Some it" and "it_waiting it"
  shows "step M c (IterTaskDone i r) = c"
  using assms
  by (cases r) (simp_all add: step_def step_map_def step_iter_def event_iteration_def
      split: option.splits state_kind.splits)

lemma step_map_submitted:
  assumes "pos c = InMap m items k running results"
    and "m = ''SubmitStep1Jobs'' \<or> m = ''SubmitStep2Jobs''"
    and "find (\<lambda>x. it_index x = i) running = Some it"
    and "it_state it = mapJ m" and "\<not> it_waiting it"
  shows "step (createGwasWorkflow props) c (IterTaskDone i (Ok out)) =
     c\<lparr>pos := InMap m items k
            (map (\<lambda>x. if it_index x = it_index it
                       then Iteration (it_index it) (mapJ m) True (it_retries it) (it_data it)
                       else x) running) results,
       trace := JobSubmitted m (it_index it) (mapJ m) # trace c\<rparr>"
  using assms
  by (auto simp add: step_def step_map_def step_iter_def event_iteration_def
      awaits_job_def submit_job_def lookup_map lookup_iter cong del: if_weak_cong)

lemma step_map_submit_err:
  assumes "pos c = InMap m items k running results"
    and "m = ''SubmitStep1Jobs'' \<or> m = ''SubmitStep2Jobs''"
    and "find (\<lambda>x. it_index x = i) running = Some it"
    and "it_state it = mapJ m" and "\<not> it_waiting it"
  shows "step (createGwasWorkflow props) c (IterTaskDone i (Err e cause)) =
     map_failed m e cause (data c) (IterTaskFailed m (it_index it) (mapJ m) e # trace c)"
  using assms
  by (auto simp add: step_def step_map_def step_iter_def event_iteration_def
      iter_task_failed_def retry_allowed_none fail_state_map lookup_map lookup_iter)

lemma step_map_job_ok:
  assumes "pos c = InMap m items k running results"
    and "m = ''SubmitStep1Jobs'' \<or> m = ''SubmitStep2Jobs''"
    and "find (\<lambda>x. it_index x = i) running = Some it"
    and "it_state it = mapJ m" and "it_waiting it"
  shows "step (createGwasWorkflow props) c (JobEnded i JOB_SUCCEEDED out cause) =
     c\<lparr>pos := InMap m items k (filter (\<lambda>x. it_index x \<noteq> it_index it) running)
                 (results @ [(it_index it, out)]),
       trace := MapIterationSucceeded m (it_index it) #
                IterTaskSucceeded m (it_index it) (mapJ m) #
                JobSucceeded m (it_index it) (mapJ m) # trace c\<rparr>"
  using assms
  by (auto simp add: step_def step_map_def step_iter_def event_iteration_def
      iter_task_succeeded_def apply_result_def put_result_def filter_output_def
      lookup_map lookup_iter)

lemma step_map_job_failed:
  assumes "pos c = InMap m items k running results"
    and "m = ''SubmitStep1Jobs'' \<or> m = ''SubmitStep2Jobs''"
    and "find (\<lambda>x. it_index x = i) running = Some it"
    and "it_state it = mapJ m" and "it_waiting it"
  shows "step (createGwasWorkflow props) c (JobEnded i JOB_FAILED out cause) =
     map_failed m ''States.TaskFailed'' cause (data c)
       (IterTaskFailed m (it_index it) (mapJ m) ''States.TaskFailed'' #
        JobFailed m (it_index it) (mapJ m) # trace c)"
  using assms
  by (auto simp add: step_def step_map_def step_iter_def event_iteration_def
      iter_task_failed_def retry_allowed_none fail_state_map lookup_map lookup_iter)

lemma step_map_finish:
  assumes "pos c = InMap m items k running results"
    and "m = ''SubmitStep1Jobs'' \<or> m = ''SubmitStep2Jobs''"
    and "data c = JObj kvs"
  shows "step (createGwasWorkflow props) c MapFinish =
     (if k = length items \<and> running = []
      then goto (createGwasWorkflow props) (mapN m)
             (JObj (update_key (mapR m) (JArr (map snd (sort_key fst results))) kvs))
             (MapStateSucceeded m # trace c)
      else c)"
  using assms
  by (auto simp add: step_def step_map_def complete_def leave_def apply_result_def
      put_result_def filter_output_def lookup_map parse_paths)

lemma find_idx: "find (\<lambda>x. it_index x = i) running = Some it \<Longrightarrow>
    it_index it = i \<and> it \<in> set running"
  by (auto simp: find_Some_iff in_set_conv_nth)

lemma is_obj_set: "is_obj d \<Longrightarrow> \<exists>kvs'. set_path [k] v d = Some (JObj kvs')"
  by (cases d) auto

lemma set_path_obj: "set_path [k] v d = Some d' \<Longrightarrow> \<exists>kvs. d' = JObj kvs"
  by (cases d) auto

lemma map_failed_obj:
  assumes "is_obj d"
  shows "\<exists>d'. map_failed m e cause d tr =
     \<lparr>pos = Ended (caught_outcome e cause), data = d', trace = caught_tail m e @ tr\<rparr>"
  using is_obj_set [OF assms, of "''error''" "error_output e cause"]
  by (auto simp: map_failed_def caught_outcome_def)

lemma sim_task:
  assumes "inv_pos c" and "pos c = AtState n r"
  shows "step (createGwasWorkflow props) c ev = c \<or> gstep c (step (createGwasWorkflow props) c ev)"
proof -
  from assms consider
    (init) "n = ''InitializeWorkflow''" | (calc) "n = ''CalculateBatchJobs''"
    | (hs) "n = ''HandleSuccess''" "is_obj (data c)"
    by (auto simp: inv_pos_def)
  then show ?thesis
  proof cases
    case init
    then have p: "pos c = AtState ''InitializeWorkflow'' r" using assms by simp
    show ?thesis
    proof (cases ev)
      case (TaskDone res)
      show ?thesis
      proof (cases res)
        case (Ok out)
        then show ?thesis using p TaskDone
          by (auto simp: step_init_ok goto_calc split: option.splits
              intro: g_init_ok g_init_noparams g_task_bad)
      next
        case (Err e k)
        then show ?thesis using p TaskDone
          by (auto simp: step_task_err [OF p lookup_G(1)] intro: g_task_retry g_task_err)
      qed
    qed (simp_all add: step_task_other [OF p])
  next
    case calc
    then have p: "pos c = AtState ''CalculateBatchJobs'' r" using assms by simp
    show ?thesis
    proof (cases ev)
      case (TaskDone res)
      show ?thesis
      proof (cases res)
        case (Ok out)
        show ?thesis
        proof (cases "set_path [''JobCalculation''] out (data c)")
          case None
          then show ?thesis using p TaskDone Ok
            by (auto simp: step_calc_ok intro: g_task_bad)
        next
          case (Some d')
          then obtain kvs where d': "d' = JObj kvs" using set_path_obj by blast
          show ?thesis using p TaskDone Ok Some d'
            by (auto simp: step_calc_ok goto_map split: option.splits
                intro: g_calc_ok g_calc_noitems)
        qed
      next
        case (Err e k)
        then show ?thesis using p TaskDone
          by (auto simp: step_task_err [OF p lookup_G(2)] intro: g_task_retry g_task_err)
      qed
    qed (simp_all add: step_task_other [OF p])
  next
    case hs
    then have p: "pos c = AtState ''HandleSuccess'' r" using assms by simp
    show ?thesis
    proof (cases ev)
      case (TaskDone res)
      show ?thesis
      proof (cases res)
        case (Ok out)
        obtain kvs' where "set_path [''successResult''] out (data c) = Some (JObj kvs')"
          using is_obj_set [OF hs(2)] by blast
        then show ?thesis using p TaskDone Ok by (auto simp: step_hs_ok intro: g_hs_ok)
      next
        case (Err e k)
        then show ?thesis using p TaskDone
          by (auto simp: step_task_err [OF p lookup_G(4)] intro: g_task_retry g_task_err)
      qed
    qed (simp_all add: step_task_other [OF p])
  qed
qed

lemma sim_map:
  assumes "inv_pos c" and p: "pos c = InMap m items k running results"
  shows "step (createGwasWorkflow props) c ev = c \<or> gstep c (step (createGwasWorkflow props) c ev)"
proof -
  from assms have m: "m = ''SubmitStep1Jobs'' \<or> m = ''SubmitStep2Jobs''"
    and d: "is_obj (data c)"
    and r: "\<forall>it \<in> set running. it_index it < k \<and> is_obj (it_data it) \<and>
             ((it_state it = mapP m \<and> \<not> it_waiting it) \<or> it_state it = mapJ m)"
    by (auto simp: inv_pos_def)
  show ?thesis
  proof (cases ev)
    case (TaskDone x)
    then show ?thesis by (simp add: step_map_taskdone [OF p])
  next
    case IterStart
    show ?thesis
    proof (cases "k < length items \<and> length running < mapC m")
      case False
      then show ?thesis using IterStart by (auto simp add: step_map_start [OF p m])
    next
      case True
      show ?thesis
      proof (cases "eval_template job_selector (context_object m (Some (k, item_at items k))) (data c)")
        case None
        then show ?thesis using IterStart True
          by (auto simp add: step_map_start [OF p m] intro: g_sel_fail [OF p])
      next
        case (Some kvs)
        then show ?thesis using IterStart True
          by (auto simp add: step_map_start [OF p m] intro: g_iter_start [OF p])
      qed
    qed
  next
    case (IterTaskDone i res)
    show ?thesis
    proof (cases "find (\<lambda>x. it_index x = i) running")
      case None
      then show ?thesis using IterTaskDone by (simp add: step_map_none [OF p])
    next
      case (Some it)
      from find_idx [OF Some] have ji: "it_index it = i" and mem: "it \<in> set running" by simp_all
      from mem r have s: "(it_state it = mapP m \<and> \<not> it_waiting it) \<or> it_state it = mapJ m"
        and x: "is_obj (it_data it)" by auto
      show ?thesis
      proof (cases "it_waiting it")
        case True
        then show ?thesis using IterTaskDone by (simp add: step_map_waiting [OF p Some])
      next
        case False
        from s show ?thesis
        proof
          assume "it_state it = mapP m \<and> \<not> it_waiting it"
          then have sp: "it_state it = mapP m" by simp
          show ?thesis
          proof (cases res)
            case (Ok out)
            from x obtain kvs where xk: "it_data it = JObj kvs" by (cases "it_data it") auto
            show ?thesis
              using IterTaskDone Ok ji g_parse_ok [OF p Some sp] g_parse_noparams [OF p Some sp]
              by (auto simp add: step_map_parse_ok [OF p m Some sp False xk] split: option.splits
                  cong del: if_weak_cong)
          next
            case (Err e cause)
            from map_failed_obj [OF d, of m e cause "IterTaskFailed m i (mapP m) e # trace c"]
            obtain d' where mf: "map_failed m e cause (data c) (IterTaskFailed m i (mapP m) e # trace c) =
              \<lparr>pos = Ended (caught_outcome e cause), data = d',
               trace = caught_tail m e @ IterTaskFailed m i (mapP m) e # trace c\<rparr>" by blast
            show ?thesis
              using IterTaskDone Err ji mf g_parse_retry [OF p Some sp]
                g_iter_err [OF p Some False, of e cause d'] sp
              by (auto simp add: step_map_parse_err [OF p m Some sp False] cong del: if_weak_cong)
          qed
        next
          assume sj: "it_state it = mapJ m"
          show ?thesis
          proof (cases res)
            case (Ok out)
            show ?thesis
              using IterTaskDone Ok ji g_job_submitted [OF p Some sj False]
              by (simp add: step_map_submitted [OF p m Some sj False] cong del: if_weak_cong)
          next
            case (Err e cause)
            from map_failed_obj [OF d, of m e cause "IterTaskFailed m i (mapJ m) e # trace c"]
            obtain d' where mf: "map_failed m e cause (data c) (IterTaskFailed m i (mapJ m) e # trace c) =
              \<lparr>pos = Ended (caught_outcome e cause), data = d',
               trace = caught_tail m e @ IterTaskFailed m i (mapJ m) e # trace c\<rparr>" by blast
            show ?thesis
              using IterTaskDone Err ji mf g_iter_err [OF p Some False, of e cause d'] sj
              by (simp add: step_map_submit_err [OF p m Some sj False])
          qed
        qed
      qed
    qed
  next
    case (JobEnded i js out cause)
    show ?thesis
    proof (cases "find (\<lambda>x. it_index x = i) running")
      case None
      then show ?thesis using JobEnded by (simp add: step_map_none [OF p])
    next
      case (Some it)
      from find_idx [OF Some] have ji: "it_index it = i" and mem: "it \<in> set running" by simp_all
      from mem r have s: "(it_state it = mapP m \<and> \<not> it_waiting it) \<or> it_state it = mapJ m"
        by auto
      show ?thesis
      proof (cases "it_waiting it")
        case False
        then show ?thesis using JobEnded by (simp add: step_map_not_waiting [OF p Some])
      next
        case True
        with s have sj: "it_state it = mapJ m" by auto
        show ?thesis
        proof (cases js)
          case JOB_SUCCEEDED
          show ?thesis
            using JobEnded JOB_SUCCEEDED ji g_job_ok [OF p Some sj True]
            by (simp add: step_map_job_ok [OF p m Some sj True])
        next
          case JOB_FAILED
          from map_failed_obj [OF d, of m "''States.TaskFailed''" cause
              "IterTaskFailed m i (mapJ m) ''States.TaskFailed'' # JobFailed m i (mapJ m) # trace c"]
          obtain d' where mf: "map_failed m ''States.TaskFailed'' cause (data c)
               (IterTaskFailed m i (mapJ m) ''States.TaskFailed'' # JobFailed m i (mapJ m) # trace c) =
              \<lparr>pos = Ended (caught_outcome ''States.TaskFailed'' cause), data = d',
               trace = caught_tail m ''States.TaskFailed'' @
                 IterTaskFailed m i (mapJ m) ''States.TaskFailed'' # JobFailed m i (mapJ m) # trace c\<rparr>"
            by blast
          show ?thesis
            using JobEnded JOB_FAILED ji mf g_job_failed [OF p Some sj True, of cause d']
            by (simp add: step_map_job_failed [OF p m Some sj True])
        qed
      qed
    qed
  next
    case MapFinish
    from d obtain dk where dk: "data c = JObj dk" by (cases "data c") auto
    show ?thesis
    proof (cases "k = length items \<and> running = []")
      case False
      then show ?thesis using MapFinish by (auto simp add: step_map_finish [OF p m dk])
    next
      case True
      from m show ?thesis
      proof
        assume m1: "m = ''SubmitStep1Jobs''"
        show ?thesis using MapFinish True p m1
          by (auto simp add: step_map_finish [OF p m dk] goto_map split: option.splits
              intro: g_finish1 g_finish1_noitems)
      next
        assume m2: "m = ''SubmitStep2Jobs''"
        show ?thesis using MapFinish True p m2
          by (auto simp add: step_map_finish [OF p m dk] goto_hs split: option.splits
              intro: g_finish2 g_finish2_noparams)
      qed
    qed
  qed
qed

lemma simulation:
  assumes "inv_pos c"
  shows "step (createGwasWorkflow props) c ev = c \<or> gstep c (step (createGwasWorkflow props) c ev)"
proof (cases "pos c")
  case (AtState n r)
  then show ?thesis using sim_task [OF assms] by blast
next
  case (InMap m items k running results)
  then show ?thesis using sim_map [OF assms] by blast
next
  case (Ended out)
  then show ?thesis by (simp add: step_ended)
qed

lemma mrank_simps [simp]: "mrank ''SubmitStep1Jobs'' = 2" "mrank ''SubmitStep2Jobs'' = 3"
  by (simp_all add: mrank_def)

lemma srank_simps [simp]:
  "srank ''InitializeWorkflow'' = 0" "srank ''CalculateBatchJobs'' = 1"
  "srank ''SubmitStep1Jobs'' = 2" "srank ''SubmitStep2Jobs'' = 3"
  "srank ''HandleSuccess'' = 4" "srank ''WorkflowSucceeded'' = 5"
  "srank ''HandleJobErrors'' = 12"
  by (simp_all add: srank_def)

lemma rank_caught_tail: "x \<in> set (caught_tail m e) \<Longrightarrow> rank x = 12"
  by (auto simp: caught_tail_def split: if_splits)

lemma caught_outcome_failed: "\<exists>e' k. caught_outcome e cause = FAILED e' k"
  by (simp add: caught_outcome_def)

lemma inv_pos_gstep: "gstep c c' \<Longrightarrow> inv_pos c \<Longrightarrow> inv_pos c'"
proof (induction rule: gstep.induct)
  case (g_parse_retry c m items k running results i it e)
  from find_idx [OF g_parse_retry(2)] have "it \<in> set running" by simp
  then show ?case using g_parse_retry(1,3,4) by (fastforce simp: inv_pos_def split: if_splits)
next
  case (g_parse_ok c m items k running results i it kvs ps)
  from find_idx [OF g_parse_ok(2)] have "it \<in> set running" by simp
  then show ?case using g_parse_ok(1,3,4) by (fastforce simp: inv_pos_def split: if_splits)
next
  case (g_job_submitted c m items k running results i it)
  from find_idx [OF g_job_submitted(2)] have "it \<in> set running" by simp
  then show ?case using g_job_submitted(1,3,5)
    by (fastforce simp: inv_pos_def split: if_splits)
next
  case (g_job_ok c m items k running results i it out)
  show ?case using g_job_ok(1,5)
    by (auto simp: inv_pos_def intro: order_trans [OF length_filter_le])
qed (auto simp: inv_pos_def)

lemma inv_rank_gstep: "gstep c c' \<Longrightarrow> inv_pos c \<Longrightarrow> inv_rank c \<Longrightarrow> inv_rank c'"
proof (induction rule: gstep.induct)
  case (g_iter_err c m items k running results i it e cause d')
  obtain e' k' where "caught_outcome e cause = FAILED e' k'"
    using caught_outcome_failed by blast
  then show ?case using g_iter_err
    by (fastforce simp: inv_pos_def inv_rank_def dest: rank_caught_tail)
next
  case (g_job_failed c m items k running results i it cause d')
  obtain e' k' where "caught_outcome ''States.TaskFailed'' cause = FAILED e' k'"
    using caught_outcome_failed by blast
  then show ?case using g_job_failed
    by (fastforce simp: inv_pos_def inv_rank_def dest: rank_caught_tail)
qed (fastforce simp: inv_pos_def inv_rank_def)+

lemma running_indices_simps [simp]:
  "running_indices [] = {}"
  "running_indices (x # xs) = insert (it_index x) (running_indices xs)"
  "running_indices (xs @ ys) = running_indices xs \<union> running_indices ys"
  by (auto simp: running_indices_def)

lemma running_indices_update [simp]:
  "running_indices (map (\<lambda>x. if it_index x = i then Iteration i s w r d else x) running) =
   running_indices running"
  by (induction running) auto

lemma running_indices_remove [simp]:
  "running_indices (filter (\<lambda>x. it_index x \<noteq> i) running) = running_indices running - {i}"
  by (induction running) auto

lemma inv_book_gstep: "gstep c c' \<Longrightarrow> inv_pos c \<Longrightarrow> inv_book c \<Longrightarrow> inv_book c'"
proof (induction rule: gstep.induct)
  case (g_iter_start c m items k running results kvs ps)
  then show ?case by (auto simp: inv_book_def less_Suc_eq)
next
  case (g_iter_err c m items k running results i it e cause d')
  then show ?case by (auto simp: inv_book_def caught_outcome_def)
next
  case (g_job_failed c m items k running results i it cause d')
  then show ?case by (auto simp: inv_book_def caught_outcome_def)
qed (auto simp: inv_book_def inv_pos_def)

lemma inv_fail_gstep: "gstep c c' \<Longrightarrow> inv_pos c \<Longrightarrow> inv_fail c \<Longrightarrow> inv_fail c'"
proof (induction rule: gstep.induct)
  case (g_iter_err c m items k running results i it e cause d')
  then show ?case
    by (auto simp: inv_fail_def inv_pos_def caught_outcome_def caught_tail_def uncatchable_def)
next
  case (g_job_failed c m items k running results i it cause d')
  then show ?case
    by (auto simp: inv_fail_def inv_pos_def caught_outcome_def caught_tail_def uncatchable_def)
qed (auto simp: inv_fail_def inv_pos_def uncatchable_def)

lemma rank_absent:
  "inv_rank c \<Longrightarrow> prank (pos c) < rank e \<Longrightarrow> e \<notin> set (trace c)"
  by (auto simp: inv_rank_def)

lemma wf_caught_tail:
  assumes "m = ''SubmitStep1Jobs'' \<or> m = ''SubmitStep2Jobs''" and "wf_trace tr"
  shows "wf_trace (caught_tail m e @ tr)"
  using assms by (auto simp: caught_tail_def)

lemma iter_pre_running:
  assumes p: "pos c = InMap m items k running results" and i: "i < length items"
    and r: "inv_rank c" and b: "inv_book c"
  shows "iter_pre m i (trace c)"
proof -
  have mi: "MapItems m (length items) \<in> set (trace c)"
    and s1: "m = ''SubmitStep2Jobs'' \<longrightarrow> MapStateSucceeded ''SubmitStep1Jobs'' \<in> set (trace c)"
    using p b by (simp_all add: inv_book_def)
  have nf: "m = ''SubmitStep2Jobs'' \<longrightarrow> IterTaskFailed ''SubmitStep1Jobs'' j t e \<notin> set (trace c)" for j t e
    using rank_absent [OF r, of "IterTaskFailed ''SubmitStep1Jobs'' j t e"] p by simp
  have nj: "m = ''SubmitStep2Jobs'' \<longrightarrow> JobFailed ''SubmitStep1Jobs'' j t \<notin> set (trace c)" for j t
    using rank_absent [OF r, of "JobFailed ''SubmitStep1Jobs'' j t"] p by simp
  show ?thesis using mi s1 nf nj i by (auto simp: iter_pre_def)
qed

lemma iter_pre_cons: "iter_pre m i tr \<Longrightarrow> rank x \<noteq> 12 \<Longrightarrow> iter_pre m i (x # tr)"
  by (auto simp: iter_pre_def)

lemma fail_pre_running:
  assumes p: "pos c = InMap m items k running results" and r: "inv_rank c"
  shows "fail_pre m (trace c)"
proof -
  have "m = ''SubmitStep1Jobs'' \<longrightarrow> StateEntered ''SubmitStep2Jobs'' \<notin> set (trace c)"
    using rank_absent [OF r, of "StateEntered ''SubmitStep2Jobs''"] p by simp
  moreover have "m = ''SubmitStep1Jobs'' \<longrightarrow> IterStateEntered ''SubmitStep2Jobs'' j t \<notin> set (trace c)" for j t
    using rank_absent [OF r, of "IterStateEntered ''SubmitStep2Jobs'' j t"] p by simp
  moreover have "m = ''SubmitStep1Jobs'' \<longrightarrow> IterTaskStarted ''SubmitStep2Jobs'' j t ps \<notin> set (trace c)" for j t ps
    using rank_absent [OF r, of "IterTaskStarted ''SubmitStep2Jobs'' j t ps"] p by simp
  ultimately show ?thesis by (simp add: fail_pre_def)
qed

lemma fail_pre_cons:
  "fail_pre m tr \<Longrightarrow> x = JobFailed m i s \<Longrightarrow> fail_pre m (x # tr)"
  by (auto simp: fail_pre_def)

lemma inv_wf_gstep:
  "gstep c c' \<Longrightarrow> inv_pos c \<Longrightarrow> inv_rank c \<Longrightarrow> inv_book c \<Longrightarrow> inv_wf c \<Longrightarrow> inv_wf c'"
proof (induction rule: gstep.induct)
  case (g_task_retry c n r e)
  then show ?case by (simp add: inv_wf_def)
next
  case (g_task_err c n r e k)
  then show ?case by (simp add: inv_wf_def)
next
  case (g_task_bad c n r e k)
  then show ?case by (auto simp add: inv_wf_def inv_book_def)
next
  case (g_init_ok c r d' ps)
  then show ?case by (auto simp add: inv_wf_def inv_book_def)
next
  case (g_init_noparams c r k d')
  then show ?case by (auto simp add: inv_wf_def inv_book_def)
next
  case (g_calc_ok c r items kvs)
  then show ?case using rank_absent [of c "MapItems ''SubmitStep1Jobs'' _"]
    by (auto simp add: inv_wf_def inv_book_def)
next
  case (g_calc_noitems c r k d')
  then show ?case by (auto simp add: inv_wf_def inv_book_def)
next
  case (g_iter_start c m items k running results kvs ps)
  from iter_pre_running [OF g_iter_start(1,2,5,6)]
  have a: "iter_pre m k (trace c)" .
  then have b: "iter_pre m k (MapIterationStarted m k # trace c)"
    by (auto simp: iter_pre_def)
  then have "iter_pre m k (IterStateEntered m k (mapP m) # MapIterationStarted m k # trace c)"
    by (auto simp: iter_pre_def)
  with b show ?case using g_iter_start(7) by (simp add: inv_wf_def)
next
  case (g_sel_fail c m items k running results)
  then show ?case by (simp add: inv_wf_def)
next
  case (g_parse_retry c m items k running results i it e)
  then show ?case by (simp add: inv_wf_def)
next
  case (g_parse_ok c m items k running results i it kvs ps)
  from find_idx [OF g_parse_ok(2)] have "it_index it = i" "it \<in> set running" by simp_all
  then have il: "i < length items" using g_parse_ok(1,4) by (auto simp: inv_pos_def)
  from iter_pre_running [OF g_parse_ok(1) il g_parse_ok(5,6)]
  have a: "iter_pre m i (trace c)" .
  then have b: "iter_pre m i (IterTaskSucceeded m i (mapP m) # trace c)"
    by (auto simp: iter_pre_def)
  then have "iter_pre m i (IterStateEntered m i (mapJ m) # IterTaskSucceeded m i (mapP m) # trace c)"
    by (auto simp: iter_pre_def)
  with b show ?case using g_parse_ok(7) by (simp add: inv_wf_def)
next
  case (g_parse_noparams c m items k running results i it k')
  then show ?case by (simp add: inv_wf_def)
next
  case (g_job_submitted c m items k running results i it)
  then show ?case by (simp add: inv_wf_def)
next
  case (g_job_ok c m items k running results i it out)
  then show ?case by (simp add: inv_wf_def)
next
  case (g_iter_err c m items k running results i it e cause d')
  have m: "m = ''SubmitStep1Jobs'' \<or> m = ''SubmitStep2Jobs''"
    using g_iter_err(1,4) by (simp add: inv_pos_def)
  have "wf_trace (IterTaskFailed m i (it_state it) e # trace c)"
    using fail_pre_running [OF g_iter_err(1,5)] g_iter_err(7) by (simp add: inv_wf_def)
  from wf_caught_tail [OF m this] show ?case by (simp add: inv_wf_def)
next
  case (g_job_failed c m items k running results i it cause d')
  have m: "m = ''SubmitStep1Jobs'' \<or> m = ''SubmitStep2Jobs''"
    using g_job_failed(1,5) by (simp add: inv_pos_def)
  have f: "fail_pre m (trace c)" using fail_pre_running [OF g_job_failed(1,6)] .
  then have "fail_pre m (JobFailed m i (mapJ m) # trace c)" by (auto simp: fail_pre_def)
  with f have "wf_trace (IterTaskFailed m i (mapJ m) ''States.TaskFailed'' #
      JobFailed m i (mapJ m) # trace c)"
    using g_job_failed(8) by (simp add: inv_wf_def)
  from wf_caught_tail [OF m this] show ?case by (simp add: inv_wf_def)
next
  case (g_finish1 c items results items2 kvs)
  have a: "MapItems ''SubmitStep1Jobs'' (length items) \<in> set (trace c)"
    and b: "StateEntered ''SubmitStep1Jobs'' \<in> set (trace c)"
    and d: "\<forall>j<length items. JobSucceeded ''SubmitStep1Jobs'' j ''SubmitStep1Job'' \<in> set (trace c)"
    using g_finish1 by (simp_all add: inv_book_def)
  have e: "MapItems ''SubmitStep2Jobs'' n' \<notin> set (trace c)" for n'
    using rank_absent [OF g_finish1(3), of "MapItems ''SubmitStep2Jobs'' n'"] g_finish1(1) by simp
  show ?case using g_finish1(5) a b d e by (auto simp add: inv_wf_def)
next
  case (g_finish1_noitems c items results k d')
  have a: "MapItems ''SubmitStep1Jobs'' (length items) \<in> set (trace c)"
    and b: "StateEntered ''SubmitStep1Jobs'' \<in> set (trace c)"
    and d: "\<forall>j<length items. JobSucceeded ''SubmitStep1Jobs'' j ''SubmitStep1Job'' \<in> set (trace c)"
    using g_finish1_noitems by (simp_all add: inv_book_def)
  show ?case using g_finish1_noitems(5) a b d by (auto simp add: inv_wf_def)
next
  case (g_finish2 c items results kvs ps)
  have a: "MapItems ''SubmitStep2Jobs'' (length items) \<in> set (trace c)"
    and d: "\<forall>j<length items. JobSucceeded ''SubmitStep2Jobs'' j ''SubmitStep2Job'' \<in> set (trace c)"
    using g_finish2 by (simp_all add: inv_book_def)
  show ?case using g_finish2(5) a d by (auto simp add: inv_wf_def)
next
  case (g_finish2_noparams c items results k d')
  have a: "MapItems ''SubmitStep2Jobs'' (length items) \<in> set (trace c)"
    and d: "\<forall>j<length items. JobSucceeded ''SubmitStep2Jobs'' j ''SubmitStep2Job'' \<in> set (trace c)"
    using g_finish2_noparams by (simp_all add: inv_book_def)
  show ?case using g_finish2_noparams(5) a d by (auto simp add: inv_wf_def)
next
  case (g_hs_ok c r d')
  then show ?case by (auto simp add: inv_wf_def inv_book_def)
qed

lemma run_snoc: "run M input (evs @ [ev]) = step M (run M input evs) ev"
  by (simp add: run_def)

lemma run_append: "run M input (evs @ evs') = foldl (step M) (run M input evs) evs'"
  by (simp add: run_def)

lemma foldl_ended: "pos c = Ended out \<Longrightarrow> foldl (step M) c evs = c"
  by (induction evs) (simp_all add: step_ended)

lemma start_G:
  "start (createGwasWorkflow props) input =
     \<lparr>pos = AtState ''InitializeWorkflow'' 0, data = input,
      trace = [TaskStarted ''InitializeWorkflow'' input, StateEntered ''InitializeWorkflow'']\<rparr>"
  by (simp add: start_def G_startAt goto_init)

lemma all_inv_start: "all_inv (start (createGwasWorkflow props) input)"
  by (simp add: start_G all_inv_def inv_pos_def inv_rank_def inv_book_def inv_fail_def inv_wf_def)

lemma all_inv_gstep: "all_inv c \<Longrightarrow> gstep c c' \<Longrightarrow> all_inv c'"
  unfolding all_inv_def
  using inv_pos_gstep inv_rank_gstep inv_book_gstep inv_fail_gstep inv_wf_gstep by blast

lemma all_inv_step: "all_inv c \<Longrightarrow> all_inv (step (createGwasWorkflow props) c ev)"
  using simulation [of c props ev] all_inv_gstep [of c] by (auto simp: all_inv_def)

lemma all_inv_run: "all_inv (run (createGwasWorkflow props) input evs)"
proof (induction evs rule: rev_induct)
  case Nil
  then show ?case by (simp add: run_def all_inv_start)
next
  case (snoc ev evs)
  then show ?case by (simp add: run_snoc all_inv_step)
qed

lemma wf_split: "wf_trace (ys @ e # xs) \<Longrightarrow> pre e xs \<and> wf_trace xs"
  by (induction ys) auto

lemma wf_mem: "wf_trace tr \<Longrightarrow> e \<in> set tr \<Longrightarrow> \<exists>ys xs. tr = ys @ e # xs \<and> pre e xs"
  using wf_split by (metis split_list)

lemma wf_items_unique:
  "wf_trace tr \<Longrightarrow> MapItems m n \<in> set tr \<Longrightarrow> MapItems m n' \<in> set tr \<Longrightarrow> n = n'"
  by (induction tr) auto

lemma G_predecessors:
  "predecessors (createGwasWorkflow props) ''WorkflowFailed'' = [''HandleJobErrors'']"
  "predecessors (createGwasWorkflow props) ''WorkflowSucceeded'' = [''HandleSuccess'']"
  "predecessors (createGwasWorkflow props) ''HandleJobErrors'' = [''SubmitStep1Jobs'', ''SubmitStep2Jobs'']"
  "predecessors (createGwasWorkflow props) ''SubmitStep2Jobs'' = [''SubmitStep1Jobs'']"
  "predecessors (createGwasWorkflow props) ''SubmitStep1Jobs'' = [''CalculateBatchJobs'']"
  by (simp_all add: predecessors_def G_states)

lemma G_successors:
  "successors (createGwasWorkflow props) ''WorkflowFailed'' = []"
  "successors (createGwasWorkflow props) ''WorkflowSucceeded'' = []"
  "successors (createGwasWorkflow props) ''CalculateBatchJobs'' = [''SubmitStep1Jobs'']"
  by (simp_all add: successors_def G_states)

lemma G_kinds:
  "lookup (createGwasWorkflow props) ''WorkflowFailed'' =
     Some (new_state (FailState ''Job execution failed'' ''BatchJobError''))"
  "lookup (createGwasWorkflow props) ''WorkflowSucceeded'' = Some (new_state SucceedState)"
  by (simp_all add: lookup_G new_state_def)

lemmas run_eval =
  run_def start_def step_def step_task_def step_map_def step_iter_def event_iteration_def
  complete_def leave_def goto_def fail_state_def start_iteration_def iter_enter_def
  iter_task_succeeded_def iter_task_failed_def is_task_kind_def awaits_job_def item_at_def
  task_parameters_def context_object_def retry_allowed_def lookup_def G_states G_startAt
  apply_result_def put_result_def filter_output_def items_at_def parse_path_def select_value_def
  ends_with_def catch_matches_def uncatchable_def error_output_def
  job_selector_def lambda_retry_def lambda_service_exceptions_def calc_payload_def
  error_payload_def success_payload_def submit_job_def
  example_props_def example_input_def example_job_def init_result_def calc_result_def
  parser_result_def submit_result_def job_result_def


lemma failed_position:
  assumes "all_inv c" and "e \<in> set (trace c)" and "rank e = 12"
  shows "\<exists>e' k. pos c = Ended (FAILED e' k)"
  using assms by (auto simp: all_inv_def inv_fail_def)




lemma error_handler_never_invoked:
  assumes "c = run (createGwasWorkflow props) input evs"
  shows "TaskStarted ''HandleJobErrors'' ps \<notin> set (trace c)"
    and "StateEntered ''WorkflowFailed'' \<notin> set (trace c)"
proof -
  have wf: "wf_trace (trace c)" using assms all_inv_run by (simp add: all_inv_def inv_wf_def)
  show "TaskStarted ''HandleJobErrors'' ps \<notin> set (trace c)"
    using wf_mem [OF wf, of "TaskStarted ''HandleJobErrors'' ps"] by auto
  show "StateEntered ''WorkflowFailed'' \<notin> set (trace c)"
    using wf_mem [OF wf, of "StateEntered ''WorkflowFailed''"] by auto
qed

lemma input_errors_not_retried:
  assumes "e \<in> {''DataFormatError'', ''NoChromosomesDetectedError'', ''InvalidParameterError'',
                ''EmptyPlanError''}"
    and "retry st = lambda_retry"
  shows "\<not> retry_allowed st e r"
  using assms
  by (auto simp: retry_allowed_def lambda_retry_def lambda_service_exceptions_def
      catch_matches_def)


section \<open>Claims\<close>




text \<open>
  C3. When the initialization or the job calculation step raises one of the four input
  errors, the execution ends at once as FAILED with the name and the cause of that error:
  the Lambda tasks retry only the Lambda service exceptions, and neither state has a
  catcher. Up to that moment no task of an iteration has been started and no job has been
  submitted.
\<close>

theorem C3_input_errors_fail_the_execution_directly:
  assumes "c = run (createGwasWorkflow props) input evs"
    and "pos c = AtState n r"
    and "n = ''InitializeWorkflow'' \<or> n = ''CalculateBatchJobs''"
    and "e \<in> {''DataFormatError'', ''NoChromosomesDetectedError'', ''InvalidParameterError'',
               ''EmptyPlanError''}"
  shows "step (createGwasWorkflow props) c (TaskDone (Err e k)) =
           \<lparr>pos = Ended (FAILED e k), data = data c, trace = StateFailed n e # trace c\<rparr>
       \<and> (\<forall>m i s ps. IterTaskStarted m i s ps \<notin> set (trace c))
       \<and> (\<forall>m i s. JobSubmitted m i s \<notin> set (trace c))"
proof -
  have inv: "inv_rank c" using assms(1) all_inv_run by (simp add: all_inv_def)
  have p: "prank (pos c) \<le> 1" using assms(2,3) by auto
  have a: "IterTaskStarted m i s ps \<notin> set (trace c)" for m i s ps
    using rank_absent [OF inv, of "IterTaskStarted m i s ps"] p by (simp add: mrank_def)
  have b: "JobSubmitted m i s \<notin> set (trace c)" for m i s
    using rank_absent [OF inv, of "JobSubmitted m i s"] p by (simp add: mrank_def)
  from assms(3) have "step (createGwasWorkflow props) c (TaskDone (Err e k)) =
           \<lparr>pos = Ended (FAILED e k), data = data c, trace = StateFailed n e # trace c\<rparr>"
  proof
    assume n: "n = ''InitializeWorkflow''"
    show ?thesis
      using step_task_err [OF assms(2) [unfolded n] lookup_G(1), of props e k]
        input_errors_not_retried [OF assms(4)] n by simp
  next
    assume n: "n = ''CalculateBatchJobs''"
    show ?thesis
      using step_task_err [OF assms(2) [unfolded n] lookup_G(2), of props e k]
        input_errors_not_retried [OF assms(4)] n by simp
  qed
  with a b show ?thesis by simp
qed

theorem C3_input_errors_fail_the_execution_directly_witness:
  "step (createGwasWorkflow example_props)
      (run (createGwasWorkflow example_props) example_input [TaskDone (Ok init_result)])
      (TaskDone (Err ''NoChromosomesDetectedError'' ''no parseable record'')) =
     \<lparr>pos = Ended (FAILED ''NoChromosomesDetectedError'' ''no parseable record''),
      data = data (run (createGwasWorkflow example_props) example_input [TaskDone (Ok init_result)]),
      trace = StateFailed ''CalculateBatchJobs'' ''NoChromosomesDetectedError'' #
              trace (run (createGwasWorkflow example_props) example_input [TaskDone (Ok init_result)])\<rparr>
   \<and> JobSubmitted ''SubmitStep1Jobs'' 0 ''SubmitStep1Job'' \<notin> set (trace
        (run (createGwasWorkflow example_props) example_input [TaskDone (Ok init_result)]))"
proof -
  have p: "pos (run (createGwasWorkflow example_props) example_input [TaskDone (Ok init_result)]) =
      AtState ''CalculateBatchJobs'' 0"
    by (simp add: run_eval)
  from C3_input_errors_fail_the_execution_directly [OF refl p, of
      "''NoChromosomesDetectedError''" "''no parseable record''"]
  show ?thesis by simp
qed

text \<open>
  C9. Once an execution has ended, as SUCCEEDED or as FAILED, no event changes its
  configuration any more. In the definition, \<^verbatim>\<open>WorkflowFailed\<close> is a Fail state and
  \<^verbatim>\<open>WorkflowSucceeded\<close> a Succeed state, without \<^verbatim>\<open>next\<close> and without catchers.
\<close>

theorem C9_terminal_states_are_final:
  assumes "pos (run (createGwasWorkflow props) input evs) = Ended out"
  shows "run (createGwasWorkflow props) input (evs @ evs') = run (createGwasWorkflow props) input evs
       \<and> successors (createGwasWorkflow props) ''WorkflowFailed'' = []
       \<and> successors (createGwasWorkflow props) ''WorkflowSucceeded'' = []
       \<and> lookup (createGwasWorkflow props) ''WorkflowFailed'' =
            Some (new_state (FailState ''Job execution failed'' ''BatchJobError''))
       \<and> lookup (createGwasWorkflow props) ''WorkflowSucceeded'' = Some (new_state SucceedState)"
  using assms by (simp add: run_append foldl_ended G_successors G_kinds)

theorem C9_terminal_states_are_final_witness:
  "run (createGwasWorkflow example_props) JNull
      ([TaskDone (Err ''DataFormatError'' ''malformed variant index'')] @
       [TaskDone (Ok init_result), IterStart, MapFinish]) =
   run (createGwasWorkflow example_props) JNull
      [TaskDone (Err ''DataFormatError'' ''malformed variant index'')]"
proof -
  have "pos (run (createGwasWorkflow example_props) JNull
      [TaskDone (Err ''DataFormatError'' ''malformed variant index'')]) =
      Ended (FAILED ''DataFormatError'' ''malformed variant index'')"
    by (simp add: run_eval)
  from C9_terminal_states_are_final [OF this] show ?thesis by simp
qed

text \<open>
  C10. The rule \<^verbatim>\<open>ManifestEventBridgeRule\<close> fires for an event exactly when it is an
  \<^verbatim>\<open>Object Created\<close> event of \<^verbatim>\<open>aws.s3\<close> for the data bucket whose key ends with
  \<^verbatim>\<open>.json\<close>, whatever the rest of the key: every such event takes the path
  topic, queue, trigger function, and \<^verbatim>\<open>results/summary.json\<close>, which is neither
  \<^verbatim>\<open>manifest.json\<close> nor \<^verbatim>\<open>*.manifest.json\<close>, is one of them.
\<close>

theorem C10_json_suffix_rule:
  "(pattern_matches (eventPattern (ManifestEventBridgeRule b)) e \<longleftrightarrow>
      ev_source e = ''aws.s3'' \<and> ev_detail_type e = ''Object Created'' \<and>
      ev_bucket_name e = b \<and> (\<exists>p. ev_object_key e = p @ ''.json''))
   \<and> trigger_pipeline (ManifestEventBridgeRule b) e =
      (if ev_source e = ''aws.s3'' \<and> ev_detail_type e = ''Object Created'' \<and>
          ev_bucket_name e = b \<and> (\<exists>p. ev_object_key e = p @ ''.json'')
       then [(''ManifestNotificationTopic'', ''ManifestQueue'', ''ManifestProcessorFunction'')]
       else [])"
  by (simp only: manifest_rule_pipeline manifest_rule_matches ends_with_iff simp_thms)

theorem C10_json_suffix_rule_witness:
  "trigger_pipeline (ManifestEventBridgeRule ''gwas-data'')
     \<lparr>ev_source = ''aws.s3'', ev_detail_type = ''Object Created'',
      ev_bucket_name = ''gwas-data'', ev_object_key = ''results/summary.json''\<rparr>
   = [(''ManifestNotificationTopic'', ''ManifestQueue'', ''ManifestProcessorFunction'')]"
proof -
  let ?e = "\<lparr>ev_source = ''aws.s3'', ev_detail_type = ''Object Created'',
      ev_bucket_name = ''gwas-data'', ev_object_key = ''results/summary.json''\<rparr>"
  have k: "\<exists>p. ev_object_key ?e = p @ ''.json''"
    by (rule exI [of _ "''results/summary''"]) simp
  have c: "ev_source ?e = ''aws.s3'' \<and> ev_detail_type ?e = ''Object Created'' \<and>
      ev_bucket_name ?e = ''gwas-data'' \<and> (\<exists>p. ev_object_key ?e = p @ ''.json'')"
    by (rule conjI, simp, rule conjI, simp, rule conjI, simp, rule k)
  show ?thesis
    using C10_json_suffix_rule [of "''gwas-data''" ?e, THEN conjunct2]
    by (simp only: c if_True simp_thms)
qed

end
